theory Spec2Isabelle
  imports Main "HOL-Library.Monad_Syntax"
begin

section \<open>Text\<close>

text \<open>
  A Python \<^verbatim>\<open>str\<close> is a sequence of Unicode code points. \<open>Latin c\<close> is the code
  point of the byte \<open>c\<close>, below 256, and \<open>Wide n\<close> is the code point \<open>256 + n\<close>.
  The string literals of the program are ASCII: \<open>lit ''abc''\<close> is the \<^verbatim>\<open>str\<close> of
  the literal \<^verbatim>\<open>"abc"\<close>.
\<close>

datatype uchar = Latin char | Wide nat

type_synonym str = "uchar list"

definition lit :: "string \<Rightarrow> str" where
  "lit s = map Latin s"

fun code_point :: "uchar \<Rightarrow> nat" where
  "code_point (Latin c) = of_char c"
| "code_point (Wide n) = 256 + n"

text \<open>\<^verbatim>\<open>chr(n)\<close>.\<close>

definition uchr :: "nat \<Rightarrow> uchar" where
  "uchr n = (if n < 256 then Latin (char_of n) else Wide (n - 256))"

text \<open>The texts that \<^verbatim>\<open>s.encode('latin-1')\<close> accepts.\<close>

fun is_latin1 :: "uchar \<Rightarrow> bool" where
  "is_latin1 (Latin c) = True"
| "is_latin1 (Wide n) = False"

definition latin1 :: "str \<Rightarrow> bool" where
  "latin1 s = list_all is_latin1 s"

section \<open>Python values\<close>

text \<open>
  The services pass around what \<^verbatim>\<open>json.loads\<close>, the search provider and the request
  form hand them: dynamically typed Python values. \<open>json\<close> is that universe.
  A dict is an association list in insertion order. \<open>JFloat neg m e\<close> is the float read
  from the decimal \<open>m * 10^e\<close> (negated when \<open>neg\<close>); \<open>JInf neg\<close> and \<open>JNaN\<close> are the three constants
  \<^verbatim>\<open>Infinity\<close>, \<^verbatim>\<open>-Infinity\<close> and \<^verbatim>\<open>NaN\<close> that \<^verbatim>\<open>json.loads\<close> accepts.
\<close>

datatype json =
    JNull
  | JBool bool
  | JInt int
  | JFloat bool nat int
  | JNaN
  | JInf bool
  | JStr str
  | JArr "json list"
  | JObj "(str \<times> json) list"

type_synonym pydict = "(str \<times> json) list"

text \<open>\<^verbatim>\<open>d.get(k, default)\<close>.\<close>

definition dict_get :: "pydict \<Rightarrow> str \<Rightarrow> json \<Rightarrow> json" where
  "dict_get d k dflt = (case map_of d k of None \<Rightarrow> dflt | Some v \<Rightarrow> v)"

text \<open>
  A decimal \<open>m * 10^e\<close> becomes the float zero when it is zero or lies at most half
  the smallest subnormal double (\<open>2^-1074\<close>) away from it.
\<close>

definition rounds_to_zero :: "nat \<Rightarrow> int \<Rightarrow> bool" where
  "rounds_to_zero m e \<longleftrightarrow>
     m = 0 \<or> (e < 0 \<and> int m * 2 ^ 1075 \<le> 10 ^ nat (- e))"

text \<open>Python truth value testing (\<^verbatim>\<open>if x\<close>, \<^verbatim>\<open>not x\<close>, \<^verbatim>\<open>x or y\<close>).\<close>

fun truthy :: "json \<Rightarrow> bool" where
  "truthy JNull = False"
| "truthy (JBool b) = b"
| "truthy (JInt i) = (i \<noteq> 0)"
| "truthy (JFloat neg m e) = (\<not> rounds_to_zero m e)"
| "truthy JNaN = True"
| "truthy (JInf neg) = True"
| "truthy (JStr s) = (s \<noteq> [])"
| "truthy (JArr xs) = (xs \<noteq> [])"
| "truthy (JObj d) = (d \<noteq> [])"

text \<open>\<^verbatim>\<open>x or y\<close>.\<close>

definition py_or :: "json \<Rightarrow> json \<Rightarrow> json" where
  "py_or x y = (if truthy x then x else y)"

subsection \<open>Decimal numerals and \<^verbatim>\<open>str()\<close>\<close>

definition digit_char :: "nat \<Rightarrow> uchar" where
  "digit_char d = Latin (char_of (48 + d))"

fun str_nat_fuel :: "nat \<Rightarrow> nat \<Rightarrow> str" where
  "str_nat_fuel 0 n = [digit_char (n mod 10)]"
| "str_nat_fuel (Suc f) n =
     (if n < 10 then [digit_char n] else str_nat_fuel f (n div 10) @ [digit_char (n mod 10)])"

text \<open>\<^verbatim>\<open>str(n)\<close> for a natural number: \<open>n\<close> has at most \<open>n + 1\<close> digits.\<close>

definition str_nat :: "nat \<Rightarrow> str" where
  "str_nat n = str_nat_fuel n n"

definition str_int :: "int \<Rightarrow> str" where
  "str_int i = (if i < 0 then Latin (CHR ''-'') # str_nat (nat (- i)) else str_nat (nat i))"

text \<open>
  \<^verbatim>\<open>str(x)\<close>, also what an f-string does to \<^verbatim>\<open>{x}\<close>. The text of a finite float and of
  a list or dict is the interpreter's (\<^verbatim>\<open>repr\<close>): it is the parameter \<open>repr\<close>.
\<close>

fun py_str :: "(json \<Rightarrow> str) \<Rightarrow> json \<Rightarrow> str" where
  "py_str repr JNull = lit ''None''"
| "py_str repr (JBool b) = (if b then lit ''True'' else lit ''False'')"
| "py_str repr (JInt i) = str_int i"
| "py_str repr JNaN = lit ''nan''"
| "py_str repr (JInf neg) = (if neg then lit ''-inf'' else lit ''inf'')"
| "py_str repr (JStr s) = s"
| "py_str repr v = repr v"

subsection \<open>\<^verbatim>\<open>str.strip()\<close>\<close>

text \<open>The code points for which \<^verbatim>\<open>str.isspace\<close> holds: the ASCII controls and the
  space, NEL and the no-break space, and the Unicode spaces and separators
  (U+1680, U+2000 to U+200A, U+2028, U+2029, U+202F, U+205F, U+3000).\<close>

fun py_isspace :: "uchar \<Rightarrow> bool" where
  "py_isspace (Latin c) =
     (let n = (of_char c :: nat)
      in (9 \<le> n \<and> n \<le> 13) \<or> (28 \<le> n \<and> n \<le> 32) \<or> n = 133 \<or> n = 160)"
| "py_isspace (Wide w) =
     (let n = 256 + w
      in n = 5760 \<or> (8192 \<le> n \<and> n \<le> 8202) \<or> n = 8232 \<or> n = 8233
         \<or> n = 8239 \<or> n = 8287 \<or> n = 12288)"

definition strip :: "str \<Rightarrow> str" where
  "strip s = rev (dropWhile py_isspace (rev (dropWhile py_isspace s)))"

section \<open>Report Assembler: \<^verbatim>\<open>ReportGenerator.safe_text\<close>\<close>

text \<open>
  \<^verbatim>\<open>
  def safe_text(self, text, default='N/A'):
      if not text or not str(text).strip():
          return default
      return str(text)
  \<close>
\<close>

definition safe_text :: "(json \<Rightarrow> str) \<Rightarrow> json \<Rightarrow> str \<Rightarrow> str" where
  "safe_text repr text dflt =
     (if \<not> truthy text \<or> strip (py_str repr text) = [] then dflt else py_str repr text)"

text \<open>The call sites all use the default \<^verbatim>\<open>'N/A'\<close>.\<close>

definition safe_text_na :: "(json \<Rightarrow> str) \<Rightarrow> json \<Rightarrow> str" where
  "safe_text_na repr text = safe_text repr text (lit ''N/A'')"

section \<open>Exceptions\<close>

text \<open>
  Every handler in the services is \<^verbatim>\<open>except Exception\<close> (the one exception,
  \<^verbatim>\<open>json.JSONDecodeError\<close> around \<^verbatim>\<open>json.loads\<close>, catches all that call raises on a
  \<^verbatim>\<open>str\<close>), so which exception was raised never decides a branch: a computation
  that may raise has an \<open>option\<close> result and \<open>None\<close> stands for "raised".
\<close>

text \<open>Iterating a value (\<^verbatim>\<open>for x in v\<close>): a list gives its items, a dict its keys, a
  \<^verbatim>\<open>str\<close> its characters; anything else raises \<^verbatim>\<open>TypeError\<close>.\<close>

fun py_iter :: "json \<Rightarrow> json list option" where
  "py_iter (JArr xs) = Some xs"
| "py_iter (JObj d) = Some (map (\<lambda>kv. JStr (fst kv)) d)"
| "py_iter (JStr s) = Some (map (\<lambda>c. JStr [c]) s)"
| "py_iter v = None"

text \<open>\<^verbatim>\<open>len(v)\<close>; raises \<^verbatim>\<open>TypeError\<close> on a value without a length.\<close>

fun py_len :: "json \<Rightarrow> nat option" where
  "py_len (JArr xs) = Some (length xs)"
| "py_len (JObj d) = Some (length d)"
| "py_len (JStr s) = Some (length s)"
| "py_len v = None"

text \<open>\<^verbatim>\<open>v[:n]\<close>: lists and strings can be sliced, a dict or a scalar raises.\<close>

fun py_slice_to :: "nat \<Rightarrow> json \<Rightarrow> json option" where
  "py_slice_to n (JArr xs) = Some (JArr (take n xs))"
| "py_slice_to n (JStr s) = Some (JStr (take n s))"
| "py_slice_to n v = None"

text \<open>Calling \<^verbatim>\<open>v.get\<close>: only a dict has the method (\<^verbatim>\<open>AttributeError\<close> otherwise).\<close>

fun as_dict :: "json \<Rightarrow> pydict option" where
  "as_dict (JObj d) = Some d"
| "as_dict v = None"

section \<open>Web Search Client: \<^verbatim>\<open>WebSearchService\<close>\<close>

text \<open>
  \<^verbatim>\<open>GoogleSearch(params).get_dict()\<close> is the hosted provider: given the request
  parameters it raises (\<open>None\<close>) or returns the response as a dict.
\<close>

type_synonym provider = "pydict \<Rightarrow> pydict option"

text \<open>\<^verbatim>\<open>os.getenv\<close> returns \<^verbatim>\<open>None\<close> or a string; \<^verbatim>\<open>not key\<close> holds for \<^verbatim>\<open>None\<close> and for
  the empty string.\<close>

definition env_value :: "str option \<Rightarrow> json" where
  "env_value k = (case k of None \<Rightarrow> JNull | Some s \<Rightarrow> JStr s)"

definition get_fallback_results :: "pydict list" where
  "get_fallback_results =
     [[(lit ''title'', JStr (lit ''Sample Result 1'')),
       (lit ''description'', JStr (lit ''This is a fallback result for demo purposes.'')),
       (lit ''url'', JStr (lit ''https://example.com'')),
       (lit ''source'', JStr (lit ''example.com''))]]"

definition organic_entry :: "pydict \<Rightarrow> pydict" where
  "organic_entry result =
     [(lit ''title'', dict_get result (lit ''title'') (JStr [])),
      (lit ''description'', dict_get result (lit ''snippet'') (JStr [])),
      (lit ''url'', dict_get result (lit ''link'') (JStr [])),
      (lit ''source'', dict_get result (lit ''displayed_link'') (JStr []))]"

definition answer_entry :: "pydict \<Rightarrow> pydict" where
  "answer_entry answer_box =
     [(lit ''title'', dict_get answer_box (lit ''title'') (JStr (lit ''Featured Answer''))),
      (lit ''description'',
         dict_get answer_box (lit ''answer'') (dict_get answer_box (lit ''snippet'') (JStr []))),
      (lit ''url'', dict_get answer_box (lit ''link'') (JStr [])),
      (lit ''source'', JStr (lit ''Featured Snippet''))]"

text \<open>
  \<^verbatim>\<open>_parse_results\<close>: one entry per organic result, the answer box (when truthy)
  inserted at position 0. It raises when \<^verbatim>\<open>organic_results\<close> cannot be iterated
  or an item (or a truthy answer box) is not a dict.
\<close>

definition parse_results :: "pydict \<Rightarrow> pydict list option" where
  "parse_results results = do {
     organic_results \<leftarrow> py_iter (dict_get results (lit ''organic_results'') (JArr []));
     parsed \<leftarrow> those (map (\<lambda>result. map_option organic_entry (as_dict result)) organic_results);
     let answer_box = dict_get results (lit ''answer_box'') (JObj []);
     if truthy answer_box
     then map_option (\<lambda>ab. answer_entry ab # parsed) (as_dict answer_box)
     else Some parsed
   }"

definition search_params :: "str \<Rightarrow> str \<Rightarrow> int \<Rightarrow> pydict" where
  "search_params query api_key count =
     [(lit ''q'', JStr query), (lit ''api_key'', JStr api_key), (lit ''num'', JInt count),
      (lit ''engine'', JStr (lit ''google''))]"

text \<open>
  \<^verbatim>\<open>search\<close>: the whole body is inside \<^verbatim>\<open>try\<close>, and both the missing key and the
  handler return \<^verbatim>\<open>self._get_fallback_results()\<close>.
\<close>

definition search :: "provider \<Rightarrow> str option \<Rightarrow> str \<Rightarrow> int \<Rightarrow> pydict list" where
  "search prov api_key query count =
     (case api_key of
        None \<Rightarrow> get_fallback_results
      | Some k \<Rightarrow>
          if k = [] then get_fallback_results
          else (case prov (search_params query k count) of
                  None \<Rightarrow> get_fallback_results
                | Some results \<Rightarrow>
                    (case parse_results results of
                       None \<Rightarrow> get_fallback_results
                     | Some parsed \<Rightarrow> parsed)))"

definition news_entry :: "pydict \<Rightarrow> pydict" where
  "news_entry result =
     [(lit ''title'', dict_get result (lit ''title'') (JStr [])),
      (lit ''description'', dict_get result (lit ''snippet'') (JStr [])),
      (lit ''url'', dict_get result (lit ''link'') (JStr [])),
      (lit ''source'', dict_get result (lit ''source'') (JStr [])),
      (lit ''date'', dict_get result (lit ''date'') (JStr []))]"

definition parse_news_results :: "pydict \<Rightarrow> pydict list option" where
  "parse_news_results results = do {
     news_results \<leftarrow> py_iter (dict_get results (lit ''news_results'') (JArr []));
     those (map (\<lambda>result. map_option news_entry (as_dict result)) news_results)
   }"

definition news_params :: "str \<Rightarrow> str option \<Rightarrow> int \<Rightarrow> pydict" where
  "news_params query api_key count =
     [(lit ''q'', JStr query), (lit ''api_key'', env_value api_key), (lit ''tbm'', JStr (lit ''nws'')),
      (lit ''num'', JInt count), (lit ''engine'', JStr (lit ''google''))]"

text \<open>\<^verbatim>\<open>search_news\<close> does not test the key; its handler returns \<^verbatim>\<open>[]\<close>.\<close>

definition search_news :: "provider \<Rightarrow> str option \<Rightarrow> str \<Rightarrow> int \<Rightarrow> pydict list" where
  "search_news prov api_key query count =
     (case prov (news_params query api_key count) of
        None \<Rightarrow> []
      | Some results \<Rightarrow>
          (case parse_news_results results of None \<Rightarrow> [] | Some parsed \<Rightarrow> parsed))"

section \<open>\<^verbatim>\<open>json.loads\<close>\<close>

text \<open>
  The decoder of the standard library, on a \<^verbatim>\<open>str\<close>: the JSON grammar with the
  library's extensions (\<^verbatim>\<open>NaN\<close>, \<^verbatim>\<open>Infinity\<close>, \<^verbatim>\<open>-Infinity\<close>), strict strings (no raw
  control character), a repeated key keeping its first position and its last
  value, and nothing but whitespace allowed after the value. \<open>None\<close> is
  \<^verbatim>\<open>json.JSONDecodeError\<close>. The limits of the interpreter itself (the bound on the
  digits of an integer literal, the recursion limit on nesting), on which the
  library raises other errors, are not part of this model.
\<close>

text \<open>\<^verbatim>\<open>d[k] = v\<close>.\<close>

fun dict_set :: "str \<Rightarrow> json \<Rightarrow> pydict \<Rightarrow> pydict" where
  "dict_set k v [] = [(k, v)]"
| "dict_set k v (p # ps) = (if fst p = k then (k, v) # ps else p # dict_set k v ps)"

definition is_ws :: "uchar \<Rightarrow> bool" where
  "is_ws c \<longleftrightarrow> c = Latin (CHR '' '') \<or> c = Latin (CHR 0x09) \<or> c = Latin (CHR 0x0A) \<or> c = Latin (CHR 0x0D)"

definition skip_ws :: "str \<Rightarrow> str" where
  "skip_ws s = dropWhile is_ws s"

definition is_digit :: "uchar \<Rightarrow> bool" where
  "is_digit c \<longleftrightarrow> 48 \<le> code_point c \<and> code_point c \<le> 57"

definition digit_val :: "uchar \<Rightarrow> nat" where
  "digit_val c = code_point c - 48"

definition digits_val :: "str \<Rightarrow> nat" where
  "digits_val ds = foldl (\<lambda>n c. 10 * n + digit_val c) 0 ds"

definition hex_val :: "uchar \<Rightarrow> nat option" where
  "hex_val c =
     (let n = code_point c
      in if 48 \<le> n \<and> n \<le> 57 then Some (n - 48)
         else if 65 \<le> n \<and> n \<le> 70 then Some (n - 55)
         else if 97 \<le> n \<and> n \<le> 102 then Some (n - 87)
         else None)"

text \<open>The four hexadecimal digits after \<^verbatim>\<open>\u\<close>.\<close>

definition hex4 :: "str \<Rightarrow> nat option" where
  "hex4 s =
     (case s of
        a # b # c # d # _ \<Rightarrow>
          (case (hex_val a, hex_val b, hex_val c, hex_val d) of
             (Some w, Some x, Some y, Some z) \<Rightarrow> Some (((w * 16 + x) * 16 + y) * 16 + z)
           | _ \<Rightarrow> None)
      | _ \<Rightarrow> None)"

definition unescape :: "uchar \<Rightarrow> uchar option" where
  "unescape e =
     (if e = Latin (CHR 0x22) then Some (Latin (CHR 0x22))
      else if e = Latin (CHR 0x5C) then Some (Latin (CHR 0x5C))
      else if e = Latin (CHR ''/'') then Some (Latin (CHR ''/''))
      else if e = Latin (CHR ''b'') then Some (Latin (CHR 0x08))
      else if e = Latin (CHR ''f'') then Some (Latin (CHR 0x0C))
      else if e = Latin (CHR ''n'') then Some (Latin (CHR 0x0A))
      else if e = Latin (CHR ''r'') then Some (Latin (CHR 0x0D))
      else if e = Latin (CHR ''t'') then Some (Latin (CHR 0x09))
      else None)"

text \<open>
  An escape \<^verbatim>\<open>\uXXXX\<close> of a high surrogate that is followed by the escape of a
  low surrogate stands for one code point beyond U+FFFF.
\<close>

definition is_high_surrogate :: "nat \<Rightarrow> bool" where
  "is_high_surrogate n \<longleftrightarrow> 55296 \<le> n \<and> n \<le> 56319"

definition is_low_surrogate :: "nat \<Rightarrow> bool" where
  "is_low_surrogate n \<longleftrightarrow> 56320 \<le> n \<and> n \<le> 57343"

definition join_surrogates :: "nat \<Rightarrow> nat \<Rightarrow> nat" where
  "join_surrogates hi lo = 65536 + (hi - 55296) * 1024 + (lo - 56320)"

text \<open>The rest of a string after its opening quote: the decoded contents and the
  text after the closing quote.\<close>

fun scan_string :: "str \<Rightarrow> str \<Rightarrow> (str \<times> str) option" where
  "scan_string acc [] = None"
| "scan_string acc [c] = (if c = Latin (CHR 0x22) then Some (rev acc, []) else None)"
| "scan_string acc (c # e # es) =
     (if c = Latin (CHR 0x22) then Some (rev acc, e # es)
      else if c = Latin (CHR 0x5C) then
        (if e = Latin (CHR ''u'') then
           (case hex4 es of
              None \<Rightarrow> None
            | Some n \<Rightarrow>
                if is_high_surrogate n
                   \<and> take 2 (drop 4 es) = [Latin (CHR 0x5C), Latin (CHR ''u'')]
                then (case hex4 (drop 6 es) of
                        None \<Rightarrow> None
                      | Some m \<Rightarrow>
                          if is_low_surrogate m
                          then scan_string (uchr (join_surrogates n m) # acc) (drop 10 es)
                          else scan_string (uchr n # acc) (drop 4 es))
                else scan_string (uchr n # acc) (drop 4 es))
         else (case unescape e of
                 None \<Rightarrow> None
               | Some ch \<Rightarrow> scan_string (ch # acc) es))
      else if code_point c < 32 then None
      else scan_string (c # acc) (e # es))"

text \<open>
  A number is the longest prefix matching
  \<^verbatim>\<open>(-?(?:0|[1-9][0-9]*))(\.[0-9]+)?([eE][-+]?[0-9]+)?\<close>: an \<^verbatim>\<open>int\<close> without fraction and
  exponent, a \<^verbatim>\<open>float\<close> otherwise.
\<close>

definition scan_int_part :: "str \<Rightarrow> (str \<times> str) option" where
  "scan_int_part s =
     (case s of
        [] \<Rightarrow> None
      | c # cs \<Rightarrow>
          if c = Latin (CHR ''0'') then Some ([c], cs)
          else if is_digit c then Some (takeWhile is_digit s, dropWhile is_digit s)
          else None)"

definition scan_frac :: "str \<Rightarrow> str \<times> str" where
  "scan_frac s =
     (case s of
        c # d # ds \<Rightarrow>
          if c = Latin (CHR ''.'') \<and> is_digit d
          then (takeWhile is_digit (d # ds), dropWhile is_digit (d # ds))
          else ([], s)
      | _ \<Rightarrow> ([], s))"

definition scan_exp :: "str \<Rightarrow> int option \<times> str" where
  "scan_exp s =
     (case s of
        [] \<Rightarrow> (None, s)
      | c # cs \<Rightarrow>
          if c = Latin (CHR ''e'') \<or> c = Latin (CHR ''E'') then
            (case cs of
               [] \<Rightarrow> (None, s)
             | d # ds \<Rightarrow>
                 if is_digit d
                 then (Some (int (digits_val (takeWhile is_digit cs))), dropWhile is_digit cs)
                 else if (d = Latin (CHR ''+'') \<or> d = Latin (CHR ''-'')) \<and> ds \<noteq> [] \<and> is_digit (hd ds)
                 then (Some ((if d = Latin (CHR ''-'') then - 1 else 1)
                             * int (digits_val (takeWhile is_digit ds))),
                       dropWhile is_digit ds)
                 else (None, s))
          else (None, s))"

definition scan_number :: "str \<Rightarrow> (json \<times> str) option" where
  "scan_number s =
     (let neg = (s \<noteq> [] \<and> hd s = Latin (CHR ''-''));
          s1 = (if neg then tl s else s)
      in case scan_int_part s1 of
           None \<Rightarrow> None
         | Some (ip, s2) \<Rightarrow>
             (let (fp, s3) = scan_frac s2;
                  (ex, s4) = scan_exp s3
              in if fp = [] \<and> ex = None
                 then Some (JInt ((if neg then - 1 else 1) * int (digits_val ip)), s4)
                 else Some (JFloat neg (digits_val (ip @ fp))
                              ((case ex of None \<Rightarrow> 0 | Some x \<Rightarrow> x) - int (length fp)),
                            s4)))"

definition literal :: "str \<Rightarrow> json \<Rightarrow> str \<Rightarrow> (json \<times> str) option" where
  "literal w v s = (if take (length w) s = w then Some (v, drop (length w) s) else None)"

text \<open>
  The value at the head of a text, with the text after it. The first argument
  bounds the number of nested calls; \<open>loads\<close> passes more than any text of that
  length needs (every second call at the latest consumes a character).
\<close>

fun parse_value :: "nat \<Rightarrow> str \<Rightarrow> (json \<times> str) option"
  and parse_elems :: "nat \<Rightarrow> json list \<Rightarrow> str \<Rightarrow> (json \<times> str) option"
  and parse_members :: "nat \<Rightarrow> pydict \<Rightarrow> str \<Rightarrow> (json \<times> str) option"
where
  "parse_value 0 s = None"
| "parse_value (Suc n) s =
     (case s of
        [] \<Rightarrow> None
      | c # cs \<Rightarrow>
          if c = Latin (CHR 0x22) then map_option (\<lambda>(str, r). (JStr str, r)) (scan_string [] cs)
          else if c = Latin (CHR ''{'') then
            (case skip_ws cs of
               [] \<Rightarrow> None
             | d # ds \<Rightarrow> if d = Latin (CHR ''}'') then Some (JObj [], ds) else parse_members n [] (d # ds))
          else if c = Latin (CHR ''['') then
            (case skip_ws cs of
               [] \<Rightarrow> None
             | d # ds \<Rightarrow> if d = Latin (CHR '']'') then Some (JArr [], ds) else parse_elems n [] (d # ds))
          else if c = Latin (CHR ''n'') then literal (lit ''null'') JNull s
          else if c = Latin (CHR ''t'') then literal (lit ''true'') (JBool True) s
          else if c = Latin (CHR ''f'') then literal (lit ''false'') (JBool False) s
          else if c = Latin (CHR ''N'') then literal (lit ''NaN'') JNaN s
          else if c = Latin (CHR ''I'') then literal (lit ''Infinity'') (JInf False) s
          else (case literal (lit ''-Infinity'') (JInf True) s of
                  Some x \<Rightarrow> Some x
                | None \<Rightarrow> scan_number s))"
| "parse_elems 0 acc s = None"
| "parse_elems (Suc n) acc s =
     (case parse_value n s of
        None \<Rightarrow> None
      | Some (v, r) \<Rightarrow>
          (case skip_ws r of
             [] \<Rightarrow> None
           | c # r2 \<Rightarrow>
               if c = Latin (CHR '','') then parse_elems n (acc @ [v]) (skip_ws r2)
               else if c = Latin (CHR '']'') then Some (JArr (acc @ [v]), r2)
               else None))"
| "parse_members 0 acc s = None"
| "parse_members (Suc n) acc s =
     (case s of
        [] \<Rightarrow> None
      | q # cs \<Rightarrow>
          if q \<noteq> Latin (CHR 0x22) then None
          else (case scan_string [] cs of
                  None \<Rightarrow> None
                | Some (k, r) \<Rightarrow>
                    (case skip_ws r of
                       [] \<Rightarrow> None
                     | colon # r2 \<Rightarrow>
                         if colon \<noteq> Latin (CHR '':'') then None
                         else (case parse_value n (skip_ws r2) of
                                 None \<Rightarrow> None
                               | Some (v, r3) \<Rightarrow>
                                   (case skip_ws r3 of
                                      [] \<Rightarrow> None
                                    | c # r4 \<Rightarrow>
                                        if c = Latin (CHR '','') then
                                          parse_members n (dict_set k v acc) (skip_ws r4)
                                        else if c = Latin (CHR ''}'') then
                                          Some (JObj (dict_set k v acc), r4)
                                        else None)))))"

definition loads :: "str \<Rightarrow> json option" where
  "loads s =
     (case parse_value (2 * length s + 2) (skip_ws s) of
        None \<Rightarrow> None
      | Some (v, r) \<Rightarrow> if skip_ws r = [] then Some v else None)"

section \<open>Structured-Report Synthesizer: \<^verbatim>\<open>AIProcessor\<close>\<close>

subsection \<open>\<^verbatim>\<open>re.findall\<close> on the two patterns of \<^verbatim>\<open>_extract_json\<close>\<close>

text \<open>
  \<^verbatim>\<open>re.findall\<close> returns the non-overlapping matches from left to right: at each
  position it takes the match the backtracking engine finds there, resumes at
  the end of that match, and moves one character on where there is none.

  The first pattern is \<^verbatim>\<open>\{[^{}]*(?:\{[^{}]*\}[^{}]*)*\}\<close>. After the opening brace
  every further character leaves the engine one choice: a character that is not
  a brace is consumed by the class at hand; at nesting depth 0 a \<^verbatim>\<open>}\<close> ends the
  match and a \<^verbatim>\<open>{\<close> can only open the group; inside the group a \<^verbatim>\<open>}\<close> closes it
  and a \<^verbatim>\<open>{\<close> fits nowhere, and giving back characters of a class never helps
  (what follows a class is a brace). \<open>nested_end inner n s\<close> reads \<open>s\<close>, the text
  after the \<open>n\<close> characters matched so far, and gives the length of the match.
\<close>

fun nested_end :: "bool \<Rightarrow> nat \<Rightarrow> str \<Rightarrow> nat option" where
  "nested_end inner n [] = None"
| "nested_end inner n (c # cs) =
     (if c = Latin (CHR ''}'') then (if inner then nested_end False (Suc n) cs else Some (Suc n))
      else if c = Latin (CHR ''{'') then (if inner then None else nested_end True (Suc n) cs)
      else nested_end inner (Suc n) cs)"

text \<open>\<open>findall_nested skip s\<close>: the matches in \<open>s\<close>, whose first \<open>skip\<close> characters
  belong to the previous match.\<close>

fun findall_nested :: "nat \<Rightarrow> str \<Rightarrow> str list" where
  "findall_nested skip [] = []"
| "findall_nested (Suc skip) (c # cs) = findall_nested skip cs"
| "findall_nested 0 (c # cs) =
     (if c = Latin (CHR ''{'') then
        (case nested_end False 1 cs of
           None \<Rightarrow> findall_nested 0 cs
         | Some len \<Rightarrow> take len (c # cs) # findall_nested (len - 1) cs)
      else findall_nested 0 cs)"

text \<open>
  The language of the first pattern, read off the expression: a brace, characters
  other than braces, any number of groups (a brace pair around such characters,
  followed by such characters), a closing brace.
\<close>

definition plain :: "str \<Rightarrow> bool" where
  "plain s \<longleftrightarrow> (\<forall>c \<in> set s. c \<noteq> Latin (CHR ''{'') \<and> c \<noteq> Latin (CHR ''}''))"

definition brace_group :: "str \<Rightarrow> bool" where
  "brace_group g \<longleftrightarrow> (\<exists>a b. g = Latin (CHR ''{'') # a @ Latin (CHR ''}'') # b \<and> plain a \<and> plain b)"

definition nested_pattern :: "str \<Rightarrow> bool" where
  "nested_pattern m \<longleftrightarrow>
     (\<exists>p gs. m = Latin (CHR ''{'') # p @ concat gs @ [Latin (CHR ''}'')] \<and> plain p \<and> (\<forall>g \<in> set gs. brace_group g))"

text \<open>
  The second pattern is \<^verbatim>\<open>\{.*?\}\<close> under \<^verbatim>\<open>re.DOTALL\<close>: from a \<^verbatim>\<open>{\<close> the shortest
  text up to a \<^verbatim>\<open>}\<close>, that is up to the next one.
\<close>

fun lazy_end :: "nat \<Rightarrow> str \<Rightarrow> nat option" where
  "lazy_end n [] = None"
| "lazy_end n (c # cs) = (if c = Latin (CHR ''}'') then Some (Suc n) else lazy_end (Suc n) cs)"

fun findall_lazy :: "nat \<Rightarrow> str \<Rightarrow> str list" where
  "findall_lazy skip [] = []"
| "findall_lazy (Suc skip) (c # cs) = findall_lazy skip cs"
| "findall_lazy 0 (c # cs) =
     (if c = Latin (CHR ''{'') then
        (case lazy_end 1 cs of
           None \<Rightarrow> findall_lazy 0 cs
         | Some len \<Rightarrow> take len (c # cs) # findall_lazy (len - 1) cs)
      else findall_lazy 0 cs)"

subsection \<open>\<^verbatim>\<open>_extract_json\<close>\<close>

text \<open>
  \<^verbatim>\<open>
  for pattern in json_patterns:
      matches = re.findall(pattern, text, re.DOTALL)
      for match in matches:
          try:
              parsed = json.loads(match)
              if isinstance(parsed, dict):
                  return parsed
          except json.JSONDecodeError:
              continue
  return None
  \<close>
\<close>

fun first_dict :: "str list \<Rightarrow> pydict option" where
  "first_dict [] = None"
| "first_dict (match # matches) =
     (case loads match of
        Some (JObj parsed) \<Rightarrow> Some parsed
      | _ \<Rightarrow> first_dict matches)"

definition extract_json :: "str \<Rightarrow> pydict option" where
  "extract_json text = first_dict (findall_nested 0 text @ findall_lazy 0 text)"

subsection \<open>\<^verbatim>\<open>_format_web_results\<close> and \<^verbatim>\<open>_generate_chart\<close>\<close>

definition newline :: str where
  "newline = [Latin (CHR 0x0A)]"

fun format_entries :: "(json \<Rightarrow> str) \<Rightarrow> nat \<Rightarrow> pydict list \<Rightarrow> str" where
  "format_entries repr i [] = []"
| "format_entries repr i (r # rs) =
     str_nat i @ lit ''. '' @ py_str repr (dict_get r (lit ''title'') (JStr [])) @ newline
     @ lit ''   Source: '' @ py_str repr (dict_get r (lit ''source'') (JStr [])) @ newline
     @ lit ''   '' @ py_str repr (dict_get r (lit ''description'') (JStr [])) @ newline
     @ format_entries repr (Suc i) rs"

text \<open>\<^verbatim>\<open>web_results\<close> defaults to \<^verbatim>\<open>None\<close>; \<^verbatim>\<open>not results\<close> holds for \<^verbatim>\<open>None\<close> and \<^verbatim>\<open>[]\<close>.\<close>

definition results_list :: "pydict list option \<Rightarrow> pydict list" where
  "results_list web_results = (case web_results of None \<Rightarrow> [] | Some rs \<Rightarrow> rs)"

definition format_web_results :: "(json \<Rightarrow> str) \<Rightarrow> pydict list option \<Rightarrow> str" where
  "format_web_results repr results =
     (if results_list results = [] then []
      else format_entries repr 1 (take 5 (results_list results)))"

text \<open>
  \<^verbatim>\<open>_generate_chart(title, data=None)\<close> plots the series with matplotlib and returns
  the PNG as a data URI. The plotting and the base64 text are the library's:
  \<open>plot title series\<close> is that text, or \<open>None\<close> when the library raises.
\<close>

type_synonym plotter = "str \<Rightarrow> int list \<Rightarrow> str option"

definition generate_chart :: "plotter \<Rightarrow> str \<Rightarrow> int list \<Rightarrow> str option" where
  "generate_chart plot title data =
     map_option (\<lambda>img_base64. lit ''data:image/png;base64,'' @ img_base64)
       (plot title (if data = [] then [1, 2, 2, 3, 4, 5] else data))"

text \<open>The two placeholder charts, built where the fallback and the validation need
  them: a list of two data URIs.\<close>

definition trend_charts :: "plotter \<Rightarrow> str \<Rightarrow> json option" where
  "trend_charts plot topic = do {
     c1 \<leftarrow> generate_chart plot (topic @ lit '' Trend 1'') [];
     c2 \<leftarrow> generate_chart plot (topic @ lit '' Trend 2'') [];
     Some (JArr [JStr c1, JStr c2])
   }"

subsection \<open>\<^verbatim>\<open>_create_fallback_structure\<close>\<close>

definition fallback_summary :: "str \<Rightarrow> str \<Rightarrow> pydict list option \<Rightarrow> str" where
  "fallback_summary topic document_text web_results =
     lit ''Analysis of '' @ topic
     @ (if document_text \<noteq> []
        then lit ''. Document provided with '' @ str_nat (length document_text) @ lit '' characters.''
        else [])
     @ (if results_list web_results \<noteq> []
        then lit '' '' @ str_nat (length (results_list web_results)) @ lit '' web sources analyzed.''
        else [])"

definition fallback_findings ::
  "(json \<Rightarrow> str) \<Rightarrow> str \<Rightarrow> str \<Rightarrow> pydict list option \<Rightarrow> json list" where
  "fallback_findings repr topic document_text web_results =
     (if document_text \<noteq> [] then [JStr (lit ''Document contains information about '' @ topic)]
      else [])
     @ map (\<lambda>r. JStr (lit ''Reference: '' @ py_str repr (dict_get r (lit ''title'') (JStr (lit ''Source'')))))
         (take 3 (results_list web_results))"

text \<open>The result is \<open>None\<close> when drawing a chart raises: nothing in the function
  catches that.\<close>

definition create_fallback_structure ::
  "(json \<Rightarrow> str) \<Rightarrow> plotter \<Rightarrow> str \<Rightarrow> str \<Rightarrow> pydict list option \<Rightarrow> pydict option"
where
  "create_fallback_structure repr plot topic document_text web_results = do {
     let summary = fallback_summary topic document_text web_results;
     let findings = fallback_findings repr topic document_text web_results;
     charts \<leftarrow> trend_charts plot topic;
     Some [(lit ''executive_summary'', JStr summary),
           (lit ''key_findings'',
              if findings \<noteq> [] then JArr findings else JArr [JStr (lit ''Processing complete'')]),
           (lit ''charts'', charts),
           (lit ''recommendations'',
              JArr [JStr (lit ''Review the provided sources''), JStr (lit ''Consider additional research'')])]
   }"

subsection \<open>\<^verbatim>\<open>generate_report_structure\<close>\<close>

text \<open>
  \<^verbatim>\<open>requests.post\<close> to the hosted model: given the token and the prompt it raises, or
  answers with a status code and a body; \<^verbatim>\<open>response.json()\<close> is the body decoded,
  \<open>None\<close> when it is not JSON and the call raises.
\<close>

datatype http_result = Http_Raised | Http_Response int "json option"

type_synonym poster = "str \<Rightarrow> str \<Rightarrow> http_result"

definition build_prompt ::
  "(json \<Rightarrow> str) \<Rightarrow> str \<Rightarrow> str \<Rightarrow> pydict list option \<Rightarrow> str" where
  "build_prompt repr topic document_text web_results =
     (let doc_excerpt = take 600 document_text;
          web_context = format_web_results repr web_results
      in lit ''Generate a JSON report about the topic: '' @ topic @ lit ''.'' @ newline @ newline
         @ lit ''Include keys: executive_summary (str), key_findings (list), ''
         @ lit ''charts (list), recommendations (list). Only return valid JSON.''
         @ newline @ newline
         @ lit ''Document excerpt: '' @ doc_excerpt @ newline
         @ web_context @ newline)"

fun is_prefix :: "str \<Rightarrow> str \<Rightarrow> bool" where
  "is_prefix [] s = True"
| "is_prefix (p # ps) [] = False"
| "is_prefix (p # ps) (c # cs) = (p = c \<and> is_prefix ps cs)"

fun is_substring :: "str \<Rightarrow> str \<Rightarrow> bool" where
  "is_substring p [] = (p = [])"
| "is_substring p (c # cs) = (is_prefix p (c # cs) \<or> is_substring p cs)"

text \<open>\<^verbatim>\<open>k in v\<close> for a string \<open>k\<close>: a key of a dict, an item of a list, a substring of
  a string; \<^verbatim>\<open>TypeError\<close> on anything else.\<close>

fun py_contains :: "json \<Rightarrow> str \<Rightarrow> bool option" where
  "py_contains (JObj d) k = Some (map_of d k \<noteq> None)"
| "py_contains (JArr xs) k = Some (JStr k \<in> set xs)"
| "py_contains (JStr s) k = Some (is_substring k s)"
| "py_contains v k = None"

text \<open>\<^verbatim>\<open>v[k]\<close> for a string \<open>k\<close>: the value of the key in a dict (\<^verbatim>\<open>KeyError\<close> without
  it), \<^verbatim>\<open>TypeError\<close> on anything else.\<close>

fun py_getitem :: "json \<Rightarrow> str \<Rightarrow> json option" where
  "py_getitem (JObj d) k = map_of d k"
| "py_getitem v k = None"

text \<open>
  \<^verbatim>\<open>
  generated_text = (
      result[0]["generated_text"]
      if isinstance(result, list) and "generated_text" in result[0]
      else str(result)
  )
  \<close>
\<close>

definition generated_text_of :: "(json \<Rightarrow> str) \<Rightarrow> json \<Rightarrow> json option" where
  "generated_text_of repr result =
     (case result of
        JArr [] \<Rightarrow> None
      | JArr (first # _) \<Rightarrow>
          (case py_contains first (lit ''generated_text'') of
             None \<Rightarrow> None
           | Some True \<Rightarrow> py_getitem first (lit ''generated_text'')
           | Some False \<Rightarrow> Some (JStr (py_str repr result)))
      | _ \<Rightarrow> Some (JStr (py_str repr result)))"

text \<open>Only a \<^verbatim>\<open>str\<close> passes both \<^verbatim>\<open>generated_text[:200]\<close> and \<^verbatim>\<open>re.findall\<close>.\<close>

fun as_str :: "json \<Rightarrow> str option" where
  "as_str (JStr s) = Some s"
| "as_str v = None"

text \<open>
  The dict \<^verbatim>\<open>validated\<close> and the loop that cuts its three lists:
  \<^verbatim>\<open>
  for key in ["key_findings", "charts", "recommendations"]:
      validated[key] = validated[key][:5]
  \<close>
  The charts are drawn only when the parsed value is falsy (\<^verbatim>\<open>or\<close> evaluates its
  right operand on demand).
\<close>

definition validate ::
  "(json \<Rightarrow> str) \<Rightarrow> plotter \<Rightarrow> str \<Rightarrow> pydict \<Rightarrow> pydict option" where
  "validate repr plot topic parsed = do {
     let executive_summary =
       take 1000 (py_str repr (dict_get parsed (lit ''executive_summary'')
                                 (JStr (lit ''Analysis of '' @ topic))));
     let key_findings =
       py_or (dict_get parsed (lit ''key_findings'') (JArr []))
             (JArr [JStr (lit ''See executive summary for key findings'')]);
     charts \<leftarrow>
       (if truthy (dict_get parsed (lit ''charts'') (JArr []))
        then Some (dict_get parsed (lit ''charts'') (JArr []))
        else trend_charts plot topic);
     let recommendations =
       py_or (dict_get parsed (lit ''recommendations'') (JArr []))
             (JArr [JStr (lit ''See executive summary for recommendations'')]);
     key_findings5 \<leftarrow> py_slice_to 5 key_findings;
     charts5 \<leftarrow> py_slice_to 5 charts;
     recommendations5 \<leftarrow> py_slice_to 5 recommendations;
     Some [(lit ''executive_summary'', JStr executive_summary),
           (lit ''key_findings'', key_findings5),
           (lit ''charts'', charts5),
           (lit ''recommendations'', recommendations5)]
   }"

text \<open>
  The body of the \<^verbatim>\<open>try\<close>. \<open>None\<close> is every way of ending in the fallback: the
  two \<^verbatim>\<open>return self._create_fallback_structure(...)\<close> inside (status other than
  200; nothing extracted, where \<^verbatim>\<open>not parsed\<close> also holds for an empty dict) and
  every exception, which the handler answers with the same call.
\<close>

definition model_report ::
  "(json \<Rightarrow> str) \<Rightarrow> plotter \<Rightarrow> poster \<Rightarrow> str \<Rightarrow> str \<Rightarrow> str
     \<Rightarrow> pydict list option \<Rightarrow> pydict option" where
  "model_report repr plot post api_token topic document_text web_results =
     (case post api_token (build_prompt repr topic document_text web_results) of
        Http_Raised \<Rightarrow> None
      | Http_Response status_code body \<Rightarrow>
          if status_code \<noteq> 200 then None
          else do {
            result \<leftarrow> body;
            generated \<leftarrow> generated_text_of repr result;
            generated_text \<leftarrow> as_str generated;
            parsed \<leftarrow> extract_json generated_text;
            if parsed = [] then None else validate repr plot topic parsed
          })"

definition generate_report_structure ::
  "(json \<Rightarrow> str) \<Rightarrow> plotter \<Rightarrow> poster \<Rightarrow> str option \<Rightarrow> str \<Rightarrow> str
     \<Rightarrow> pydict list option \<Rightarrow> pydict option" where
  "generate_report_structure repr plot post api_token topic document_text web_results =
     (case api_token of
        None \<Rightarrow> create_fallback_structure repr plot topic document_text web_results
      | Some tok \<Rightarrow>
          if tok = [] then create_fallback_structure repr plot topic document_text web_results
          else (case model_report repr plot post tok topic document_text web_results of
                  Some validated \<Rightarrow> Some validated
                | None \<Rightarrow>
                    create_fallback_structure repr plot topic document_text web_results))"

section \<open>Chart Renderer: \<^verbatim>\<open>ChartGenerator\<close>\<close>

datatype chart_kind = Bar | Pie

text \<open>
  Building the plotly figure, rasterising it (\<^verbatim>\<open>fig.to_image\<close>) and encoding the
  bytes is the library's: \<open>render kind labels values\<close> is the base64 text, or
  \<open>None\<close> when the library raises.
\<close>

type_synonym renderer = "chart_kind \<Rightarrow> json list \<Rightarrow> json list \<Rightarrow> str option"

text \<open>\<^verbatim>\<open>[dp[key] for dp in data_points]\<close>.\<close>

definition column :: "str \<Rightarrow> json \<Rightarrow> json list option" where
  "column key data_points = do {
     dps \<leftarrow> py_iter data_points;
     those (map (\<lambda>dp. py_getitem dp key) dps)
   }"

text \<open>Both functions catch every exception and return \<^verbatim>\<open>None\<close> then.\<close>

definition create_bar_chart :: "renderer \<Rightarrow> json \<Rightarrow> pydict option" where
  "create_bar_chart render data_points = do {
     labels \<leftarrow> column (lit ''label'') data_points;
     values \<leftarrow> column (lit ''value'') data_points;
     img_base64 \<leftarrow> render Bar labels values;
     Some [(lit ''type'', JStr (lit ''bar'')), (lit ''image'', JStr img_base64),
           (lit ''title'', JStr (lit ''Data Overview''))]
   }"

definition create_pie_chart :: "renderer \<Rightarrow> json \<Rightarrow> pydict option" where
  "create_pie_chart render data_points = do {
     labels \<leftarrow> column (lit ''label'') data_points;
     values \<leftarrow> column (lit ''value'') data_points;
     img_base64 \<leftarrow> render Pie labels values;
     Some [(lit ''type'', JStr (lit ''pie'')), (lit ''image'', JStr img_base64),
           (lit ''title'', JStr (lit ''Distribution Analysis''))]
   }"

text \<open>\<^verbatim>\<open>if chart: charts.append(chart)\<close>: a chart dict has three keys and is truthy.\<close>

definition appended :: "pydict option \<Rightarrow> pydict list" where
  "appended chart = (case chart of None \<Rightarrow> [] | Some c \<Rightarrow> if c = [] then [] else [c])"

text \<open>
  \<^verbatim>\<open>generate_charts\<close>. The result pairs the list \<^verbatim>\<open>charts\<close> with the chart functions
  that were called, in order. \<open>plotly_ok\<close> says whether \<^verbatim>\<open>import plotly.graph_objects\<close>
  at the head of the \<^verbatim>\<open>try\<close> succeeds; when it raises, the handler logs and the
  list is returned as it is, empty. The test before the \<^verbatim>\<open>try\<close> raises on a truthy
  value without a length: the result is \<open>None\<close> then.
\<close>

definition generate_charts ::
  "bool \<Rightarrow> renderer \<Rightarrow> json \<Rightarrow> (pydict list \<times> chart_kind list) option" where
  "generate_charts plotly_ok render data_points =
     (if \<not> truthy data_points then Some ([], [])
      else (case py_len data_points of
              None \<Rightarrow> None
            | Some n \<Rightarrow>
                if n < 2 then Some ([], [])
                else if \<not> plotly_ok then Some ([], [])
                else if n \<le> 6
                then Some (appended (create_bar_chart render data_points)
                           @ appended (create_pie_chart render data_points), [Bar, Pie])
                else Some (appended (create_bar_chart render data_points), [Bar])))"

section \<open>Report Assembler: \<^verbatim>\<open>ReportGenerator.generate_pdf\<close>\<close>

text \<open>
  The document is what \<^verbatim>\<open>generate_pdf\<close> asks of the \<^verbatim>\<open>FPDF\<close> object: the sequence of
  its calls. \<open>Cell h txt centred\<close> is \<^verbatim>\<open>pdf.cell(page_width, h, txt, ln=True)\<close>,
  with \<^verbatim>\<open>align='C'\<close> when \<open>centred\<close>; \<open>Multi_Cell h txt\<close> is
  \<^verbatim>\<open>pdf.multi_cell(page_width, h, txt)\<close>.
\<close>

datatype pdf_op =
    Set_Auto_Page_Break
  | Add_Page
  | Set_Font str str nat
  | Cell nat str bool
  | Multi_Cell nat str
  | Ln nat
  | Put_Image str
  | Output str

text \<open>
  What the libraries around the document do: \<^verbatim>\<open>base64.b64decode\<close> of a chart's
  image (\<open>None\<close> when it raises), whether \<^verbatim>\<open>pdf.image\<close> accepts the decoded bytes
  written to the temporary file, the name \<^verbatim>\<open>tempfile.mktemp\<close> returns, and whether
  \<^verbatim>\<open>pdf.output\<close> can write there.
\<close>

record pdf_lib =
  b64decode :: "json \<Rightarrow> str option"
  image_ok :: "str \<Rightarrow> bool"
  mktemp :: str
  output_ok :: bool

text \<open>
  One round of the loop over the charts; its body is inside \<^verbatim>\<open>try\<close>, and a chart
  that raises is logged and left out:
  \<^verbatim>\<open>
  img_data = base64.b64decode(chart.get('image', ''))
  if not img_data:
      continue
  ...
  pdf.image(tmp_path, x=10, w=page_width)
  pdf.ln(5)
  \<close>
\<close>

definition chart_ops :: "pdf_lib \<Rightarrow> pydict \<Rightarrow> pdf_op list" where
  "chart_ops lib chart =
     (case b64decode lib (dict_get chart (lit ''image'') (JStr [])) of
        None \<Rightarrow> []
      | Some img_data \<Rightarrow>
          if img_data = [] then []
          else if image_ok lib img_data then [Put_Image img_data, Ln 5]
          else [])"

definition bullet :: "(json \<Rightarrow> str) \<Rightarrow> nat \<Rightarrow> json \<Rightarrow> pdf_op" where
  "bullet repr h item = Multi_Cell h (lit ''  - '' @ safe_text_na repr item)"

text \<open>
  The calls \<^verbatim>\<open>generate_pdf(report_data, charts)\<close> makes up to \<^verbatim>\<open>pdf.output\<close>, in order;
  \<open>None\<close> when the function itself raises on the way (a truthy \<^verbatim>\<open>key_findings\<close>,
  \<^verbatim>\<open>recommendations\<close> or \<^verbatim>\<open>citations\<close> that cannot be iterated).
\<close>

definition pdf_calls ::
  "(json \<Rightarrow> str) \<Rightarrow> pdf_lib \<Rightarrow> pydict \<Rightarrow> pydict list \<Rightarrow> pdf_op list option"
where
  "pdf_calls repr lib report_data charts = do {
     let title = take 80 (safe_text_na repr (dict_get report_data (lit ''title'') (JStr (lit ''Report''))));
     let summary =
       safe_text_na repr
         (dict_get report_data (lit ''executive_summary'') (JStr (lit ''No executive summary available.'')));
     key_findings \<leftarrow>
       py_iter (py_or (dict_get report_data (lit ''key_findings'') (JArr []))
                      (JArr [JStr (lit ''No key findings available.'')]));
     let analysis =
       safe_text_na repr
         (dict_get report_data (lit ''detailed_analysis'') (JStr (lit ''No detailed analysis available.'')));
     recommendations \<leftarrow>
       py_iter (py_or (dict_get report_data (lit ''recommendations'') (JArr []))
                      (JArr [JStr (lit ''No recommendations available.'')]));
     let citations = dict_get report_data (lit ''citations'') (JArr []);
     references \<leftarrow>
       (if truthy citations
        then map_option
               (\<lambda>cs. [Set_Font (lit ''Arial'') (lit ''B'') 12, Cell 10 (lit ''References'') False,
                      Set_Font (lit ''Arial'') [] 9] @ map (bullet repr 5) cs)
               (py_iter citations)
        else Some []);
     Some (
       [Set_Auto_Page_Break, Add_Page,
        Set_Font (lit ''Arial'') (lit ''B'') 20, Cell 10 title True, Ln 10,
        Set_Font (lit ''Arial'') (lit ''B'') 14, Cell 10 (lit ''1. Executive Summary'') False,
        Set_Font (lit ''Arial'') [] 11, Multi_Cell 6 summary, Ln 5,
        Set_Font (lit ''Arial'') (lit ''B'') 14, Cell 10 (lit ''2. Key Findings'') False,
        Set_Font (lit ''Arial'') [] 11]
       @ map (bullet repr 6) key_findings
       @ [Ln 5,
          Set_Font (lit ''Arial'') (lit ''B'') 14, Cell 10 (lit ''3. Detailed Analysis'') False,
          Set_Font (lit ''Arial'') [] 11, Multi_Cell 6 analysis, Ln 5]
       @ (if charts \<noteq> []
          then [Add_Page, Set_Font (lit ''Arial'') (lit ''B'') 14, Cell 10 (lit ''4. Data Visualizations'') False,
                Ln 5] @ concat (map (chart_ops lib) charts)
          else [])
       @ [Add_Page, Set_Font (lit ''Arial'') (lit ''B'') 14, Cell 10 (lit ''5. Recommendations'') False,
          Set_Font (lit ''Arial'') [] 11]
       @ map (bullet repr 6) recommendations
       @ [Ln 5]
       @ references)
   }"

text \<open>
  The font is a core font (\<^verbatim>\<open>'Arial'\<close>), for which the library encodes every text as
  Latin-1: a text with any other character makes it raise, at the call that
  writes the text or at the latest in \<^verbatim>\<open>pdf.output\<close>. No call of \<^verbatim>\<open>generate_pdf\<close> that
  writes text is inside a \<^verbatim>\<open>try\<close>.
\<close>

fun encodable :: "pdf_op \<Rightarrow> bool" where
  "encodable (Cell h t centred) = latin1 t"
| "encodable (Multi_Cell h t) = latin1 t"
| "encodable op = True"

text \<open>
  \<^verbatim>\<open>generate_pdf(report_data, charts)\<close>: the name of the saved file and the calls
  made, or \<open>None\<close> when it raises: in the function itself, on a text the font
  cannot encode, or in \<^verbatim>\<open>pdf.output\<close> writing the file.
\<close>

definition generate_pdf ::
  "(json \<Rightarrow> str) \<Rightarrow> pdf_lib \<Rightarrow> pydict \<Rightarrow> pydict list \<Rightarrow> (str \<times> pdf_op list) option"
where
  "generate_pdf repr lib report_data charts =
     (case pdf_calls repr lib report_data charts of
        None \<Rightarrow> None
      | Some calls \<Rightarrow>
          if list_all encodable calls \<and> output_ok lib
          then Some (mktemp lib, calls @ [Output (mktemp lib)])
          else None)"


section \<open>Document Extractor: \<^verbatim>\<open>DocumentProcessor.extract_text_from_pdf\<close>\<close>

text \<open>
  \<^verbatim>\<open>pdfplumber.open\<close> and \<^verbatim>\<open>page.extract_text()\<close> are the library's: the argument is
  the text of each page (\<^verbatim>\<open>None\<close> for a page without text), or \<open>None\<close> when the
  library raises, which the function answers with the empty string.
\<close>

definition extract_text_from_pdf :: "str option list option \<Rightarrow> str" where
  "extract_text_from_pdf pages =
     (case pages of
        None \<Rightarrow> []
      | Some ps \<Rightarrow>
          concat (map (\<lambda>page_text. case page_text of
                                      None \<Rightarrow> []
                                    | Some t \<Rightarrow> if t \<noteq> [] then t @ newline else []) ps))"

section \<open>Request Orchestrator: \<^verbatim>\<open>generate_report\<close> in \<^verbatim>\<open>app.py\<close>\<close>

record upload =
  filename :: str
  content :: str

text \<open>\<^verbatim>\<open>request.form.get('topic')\<close> and \<^verbatim>\<open>request.files.get('document')\<close> are \<^verbatim>\<open>None\<close>
  for a field the request does not have.\<close>

record request =
  http_method :: str
  form_topic :: "str option"
  file_document :: "upload option"

text \<open>
  Everything outside the process: whether the framework can read the form of a
  request (\<^verbatim>\<open>request.form\<close> and \<^verbatim>\<open>request.files\<close> raise on a body it refuses, such
  as a field beyond its size limit), the two credentials of the environment,
  the hosted services and the libraries, and the file system under the upload
  (\<^verbatim>\<open>file.save\<close>, \<^verbatim>\<open>pdfplumber\<close>, \<^verbatim>\<open>os.remove\<close>; \<open>False\<close> or \<open>None\<close> when they raise).
\<close>

record world =
  form_ok :: "request \<Rightarrow> bool"
  serpapi_key :: "str option"
  hf_token :: "str option"
  serp :: provider
  w_repr :: "json \<Rightarrow> str"
  w_plot :: plotter
  w_post :: poster
  plotly_ok :: bool
  w_render :: renderer
  w_pdf :: pdf_lib
  save_ok :: "upload \<Rightarrow> bool"
  pdf_pages :: "upload \<Rightarrow> str option list option"
  remove_ok :: "upload \<Rightarrow> bool"

text \<open>A response: \<^verbatim>\<open>'', 204\<close> for the preflight, otherwise \<^verbatim>\<open>jsonify(body), status\<close>.\<close>

datatype reply = Empty_Reply nat | Json_Reply nat pydict

definition reply_status :: "reply \<Rightarrow> nat" where
  "reply_status r = (case r of Empty_Reply s \<Rightarrow> s | Json_Reply s body \<Rightarrow> s)"

definition reply_field :: "reply \<Rightarrow> str \<Rightarrow> json option" where
  "reply_field r k = (case r of Empty_Reply s \<Rightarrow> None | Json_Reply s body \<Rightarrow> map_of body k)"

text \<open>The calls the handler makes to the services, in order; the call to the
  chart renderer with its argument.\<close>

datatype stage =
    Extract_Document
  | Search_Web
  | Synthesize_Report
  | Render_Charts json
  | Assemble_Pdf

text \<open>\<^verbatim>\<open>os.path.basename\<close>.\<close>

definition basename :: "str \<Rightarrow> str" where
  "basename p = rev (takeWhile (\<lambda>c. c \<noteq> Latin (CHR ''/'')) (rev p))"

text \<open>The error reply of status 500; the text of the exception that follows the
  message is not part of the model.\<close>

definition server_error :: "str \<Rightarrow> reply" where
  "server_error msg = Json_Reply 500 [(lit ''success'', JBool False), (lit ''error'', JStr msg)]"

text \<open>Step 1: \<^verbatim>\<open>if file:\<close> holds for an upload with a file name. Saving, extracting
  and removing are in one \<^verbatim>\<open>try\<close> whose handler resets the text to \<^verbatim>\<open>""\<close>.\<close>

definition process_document :: "world \<Rightarrow> upload option \<Rightarrow> str \<times> stage list" where
  "process_document w file =
     (case file of
        None \<Rightarrow> ([], [])
      | Some f \<Rightarrow>
          if filename f = [] then ([], [])
          else if \<not> save_ok w f then ([], [])
          else (if remove_ok w f then extract_text_from_pdf (pdf_pages w f) else [],
                [Extract_Document]))"

text \<open>
  The handler, from the topic test on. \<^verbatim>\<open>search\<close> catches what it raises, so the
  handler around step 2 never runs. Steps 3 and 5 end the request with status
  500 when they raise (step 3 also on a falsy report); step 4 falls back to no
  charts.
\<close>

definition run_pipeline :: "world \<Rightarrow> str \<Rightarrow> upload option \<Rightarrow> reply \<times> stage list" where
  "run_pipeline w topic file =
     (let (document_text, tr1) = process_document w file;
          search_results = search (serp w) (serpapi_key w) topic 5;
          tr3 = tr1 @ [Search_Web, Synthesize_Report]
      in case generate_report_structure (w_repr w) (w_plot w) (w_post w) (hf_token w)
                topic document_text (Some search_results) of
           None \<Rightarrow> (server_error (lit ''Failed to generate report: ''), tr3)
         | Some report_data \<Rightarrow>
             if report_data = [] then (server_error (lit ''Failed to generate report: ''), tr3)
             else
               (let data_points = dict_get report_data (lit ''data_points'') (JArr []);
                    charts = (case generate_charts (plotly_ok w) (w_render w) data_points of
                                None \<Rightarrow> []
                              | Some (cs, attempted) \<Rightarrow> cs);
                    tr5 = tr3 @ [Render_Charts data_points, Assemble_Pdf]
                in case generate_pdf (w_repr w) (w_pdf w) report_data charts of
                     None \<Rightarrow> (server_error (lit ''Failed to generate PDF: ''), tr5)
                   | Some (pdf_path, doc) \<Rightarrow>
                       (Json_Reply 200
                          [(lit ''success'', JBool True),
                           (lit ''report'', JObj report_data),
                           (lit ''charts_count'', JInt (int (length charts))),
                           (lit ''pdf_url'', JStr (lit ''/api/download/'' @ basename pdf_path)),
                           (lit ''search_results_count'', JInt (int (length search_results)))],
                        tr5)))"

text \<open>
  \<^verbatim>\<open>
  if request.method == 'OPTIONS':
      return '', 204
  ...
  topic = request.form.get('topic')
  file = request.files.get('document')
  if not topic:
      return jsonify({"success": False, "error": "Topic is required"}), 400
  \<close>
  All of it but the preflight is inside the handler's outer \<^verbatim>\<open>try\<close>, whose
  \<^verbatim>\<open>except Exception\<close> answers \<^verbatim>\<open>{"success": False, "error": str(e)}\<close> with status 500:
  that is the reply when reading the form raises.
\<close>

definition generate_report :: "world \<Rightarrow> request \<Rightarrow> reply \<times> stage list" where
  "generate_report w req =
     (if http_method req = lit ''OPTIONS'' then (Empty_Reply 204, [])
      else if \<not> form_ok w req then (server_error [], [])
      else (case form_topic req of
              None \<Rightarrow>
                (Json_Reply 400 [(lit ''success'', JBool False), (lit ''error'', JStr (lit ''Topic is required''))],
                 [])
            | Some topic \<Rightarrow>
                if topic = [] then
                  (Json_Reply 400
                     [(lit ''success'', JBool False), (lit ''error'', JStr (lit ''Topic is required''))],
                   [])
                else run_pipeline w topic (file_document req)))"

section \<open>The report schema\<close>








definition list_keys :: "str list" where
  "list_keys = [lit ''key_findings'', lit ''charts'', lit ''recommendations'']"

definition schema_keys :: "str list" where
  "schema_keys = [lit ''executive_summary'', lit ''key_findings'', lit ''charts'', lit ''recommendations'']"

section \<open>Worked inputs\<close>

text \<open>A stand-in for the interpreter's \<^verbatim>\<open>repr\<close> in the worked examples.\<close>

definition sample_repr :: "json \<Rightarrow> str" where
  "sample_repr v = lit ''<repr>''"

text \<open>A provider that is down, and one that rejects a request without a key.\<close>

definition provider_down :: provider where
  "provider_down params = None"

definition provider_needs_key :: provider where
  "provider_needs_key params =
     (if map_of params (lit ''api_key'') = Some JNull then None
      else Some [(lit ''news_results'', JArr [JObj [(lit ''title'', JStr (lit ''Headline''))]])])"

definition sample_plot :: plotter where
  "sample_plot title series = Some (lit ''iVBORw0KGgo='')"

definition plot_broken :: plotter where
  "plot_broken title series = None"

definition model_answers :: "str \<Rightarrow> poster" where
  "model_answers text token prompt =
     Http_Response 200 (Some (JArr [JObj [(lit ''generated_text'', JStr text)]]))"

definition sample_render :: renderer where
  "sample_render kind labels values = Some (lit ''iVBORw0KGgo='')"

definition sample_pdf_lib :: pdf_lib where
  "sample_pdf_lib =
     \<lparr>b64decode = as_str, image_ok = (\<lambda>img. True), mktemp = lit ''/tmp/tmpk3v9.pdf'',
      output_ok = True\<rparr>"

definition sample_world :: world where
  "sample_world =
     \<lparr>form_ok = (\<lambda>req. True), serpapi_key = None, hf_token = None, serp = provider_down,
      w_repr = sample_repr, w_plot = sample_plot, w_post = (\<lambda>token prompt. Http_Raised), plotly_ok = True,
      w_render = sample_render, w_pdf = sample_pdf_lib, save_ok = (\<lambda>f. True),
      pdf_pages = (\<lambda>f. Some [Some (lit ''page one'')]), remove_ok = (\<lambda>f. True)\<rparr>"

definition sample_point :: "str \<Rightarrow> int \<Rightarrow> json" where
  "sample_point l v = JObj [(lit ''label'', JStr l), (lit ''value'', JInt v)]"



definition sample_request :: request where
  "sample_request = \<lparr>http_method = lit ''POST'', form_topic = Some (lit ''AI''), file_document = None\<rparr>"

definition request_without_topic :: request where
  "request_without_topic =
     \<lparr>http_method = lit ''POST'', form_topic = None,
      file_document = Some \<lparr>filename = lit ''notes.pdf'', content = lit ''%PDF''\<rparr>\<rparr>"

text \<open>A world whose framework refuses the body of every request.\<close>

definition world_form_unreadable :: world where
  "world_form_unreadable = sample_world\<lparr>form_ok := (\<lambda>req. False)\<rparr>"

text \<open>A world without the plotting library.\<close>

definition world_without_plotly :: world where
  "world_without_plotly = sample_world\<lparr>plotly_ok := False\<rparr>"


section \<open>Literals\<close>

lemma lit_eq_iff [simp]: "lit a = lit b \<longleftrightarrow> a = b"
  by (simp add: lit_def inj_map_eq_map inj_def)

lemma lit_Nil [simp]: "lit [] = []"
  by (simp add: lit_def)

lemma lit_eq_Nil [simp]: "lit s = [] \<longleftrightarrow> s = []"
  by (simp add: lit_def)

lemma lit_Cons: "lit (c # cs) = Latin c # lit cs"
  by (simp add: lit_def)

lemma length_lit [simp]: "length (lit s) = length s"
  by (simp add: lit_def)

lemma latin1_lit [simp]: "latin1 (lit s)"
  by (induction s) (simp_all add: lit_def latin1_def)

lemma latin1_append [simp]: "latin1 (a @ b) \<longleftrightarrow> latin1 a \<and> latin1 b"
  by (simp add: latin1_def)


section \<open>Decimal numerals\<close>

text \<open>\<open>str_nat\<close> writes the digits of its argument: reading them gives it back.\<close>

lemma digits_val_snoc: "digits_val (ds @ [c]) = 10 * digits_val ds + digit_val c"
  by (simp add: digits_val_def)

lemma digit_val_digit_char: "k < 10 \<Longrightarrow> digit_val (digit_char k) = k"
  by (simp add: digit_val_def digit_char_def)

lemma str_nat_fuel_value: "n \<le> f \<Longrightarrow> digits_val (str_nat_fuel f n) = n"
proof (induction f arbitrary: n)
  case 0
  then show ?case by (simp add: digits_val_def digit_val_digit_char)
next
  case (Suc f)
  show ?case
  proof (cases "n < 10")
    case True
    then show ?thesis by (simp add: digits_val_def digit_val_digit_char)
  next
    case False
    with Suc.prems have "n div 10 \<le> f" by simp
    from Suc.IH [OF this] False show ?thesis
      by (simp add: digits_val_snoc digit_val_digit_char)
  qed
qed

lemma str_nat_value: "digits_val (str_nat n) = n"
  by (simp add: str_nat_def str_nat_fuel_value)

section \<open>The scan for the first pattern is the pattern\<close>

lemma nested_end_plain:
  "plain p \<Longrightarrow> nested_end inner n (p @ rest) = nested_end inner (n + length p) rest"
  by (induction p arbitrary: n) (auto simp: plain_def)

lemma nested_end_group:
  assumes "brace_group g"
  shows "nested_end False n (g @ rest) = nested_end False (n + length g) rest"
proof -
  from assms obtain a b where g: "g = Latin (CHR ''{'') # a @ Latin (CHR ''}'') # b" and a: "plain a" and b: "plain b"
    by (auto simp: brace_group_def)
  show ?thesis
    using nested_end_plain [OF a, of True "Suc n" "Latin (CHR ''}'') # b @ rest"]
      nested_end_plain [OF b, of False "Suc (Suc (n + length a))" rest]
    by (simp add: g ac_simps)
qed

lemma nested_end_groups:
  "\<forall>g \<in> set gs. brace_group g \<Longrightarrow>
   nested_end False n (concat gs @ rest) = nested_end False (n + length (concat gs)) rest"
  by (induction gs arbitrary: n) (auto simp: nested_end_group add.assoc)

lemma nested_end_complete:
  assumes "nested_pattern m" and "m = Latin (CHR ''{'') # body"
  shows "nested_end False 1 (body @ rest) = Some (length m)"
proof -
  from assms obtain p gs where body: "body = p @ concat gs @ [Latin (CHR ''}'')]" and p: "plain p"
    and gs: "\<forall>g \<in> set gs. brace_group g"
    by (auto simp: nested_pattern_def)
  show ?thesis
    using nested_end_plain [OF p, of False 1 "concat gs @ [Latin (CHR ''}'')] @ rest"]
      nested_end_groups [OF gs, of "1 + length p" "[Latin (CHR ''}'')] @ rest"]
    by (simp add: body assms(2))
qed


lemma nested_end_gt: "nested_end inner n s = Some k \<Longrightarrow> n < k"
proof (induction s arbitrary: inner n)
  case Nil
  then show ?case by simp
next
  case (Cons c cs)
  then show ?case by (fastforce split: if_splits dest: Suc_lessD)
qed

lemma take_Cons_gt: "n < k \<Longrightarrow> take (k - n) (c # cs) = c # take (k - Suc n) cs"
proof -
  assume "n < k"
  then have "k - n = Suc (k - Suc n)" by simp
  then show ?thesis by (simp only: take_Suc_Cons)
qed

lemma nested_end_sound_aux:
  "nested_end inner n s = Some k \<Longrightarrow>
   (if inner
    then \<exists>a b gs. take (k - n) s = a @ Latin (CHR ''}'') # b @ concat gs @ [Latin (CHR ''}'')]
           \<and> plain a \<and> plain b \<and> (\<forall>g \<in> set gs. brace_group g)
    else \<exists>p gs. take (k - n) s = p @ concat gs @ [Latin (CHR ''}'')]
           \<and> plain p \<and> (\<forall>g \<in> set gs. brace_group g))"
proof (induction s arbitrary: inner n)
  case Nil
  then show ?case by simp
next
  case (Cons c cs)
  note gt = nested_end_gt [OF Cons.prems]
  note tk = take_Cons_gt [OF gt, of c cs]
  consider (close) "c = Latin (CHR ''}'')" | (opn) "c = Latin (CHR ''{'')" | (other) "c \<noteq> Latin (CHR ''}'')" "c \<noteq> Latin (CHR ''{'')"
    by blast
  then show ?case
  proof cases
    case close
    show ?thesis
    proof (cases inner)
      case True
      with close Cons.prems have "nested_end False (Suc n) cs = Some k" by simp
      from Cons.IH [OF this] obtain p gs where
        "take (k - Suc n) cs = p @ concat gs @ [Latin (CHR ''}'')]" "plain p" "\<forall>g \<in> set gs. brace_group g"
        by auto
      then have "take (k - n) (c # cs) = [] @ Latin (CHR ''}'') # p @ concat gs @ [Latin (CHR ''}'')]
          \<and> plain [] \<and> plain p \<and> (\<forall>g \<in> set gs. brace_group g)"
        using tk close by (simp add: plain_def)
      with True show ?thesis by metis
    next
      case False
      with close Cons.prems have "k = Suc n" by simp
      then have "take (k - n) (c # cs) = [] @ concat [] @ [Latin (CHR ''}'')] \<and> plain []
          \<and> (\<forall>g \<in> set ([] :: str list). brace_group g)"
        using close by (simp add: plain_def)
      with False show ?thesis by metis
    qed
  next
    case opn
    show ?thesis
    proof (cases inner)
      case True
      with opn Cons.prems show ?thesis by simp
    next
      case False
      with opn Cons.prems have "nested_end True (Suc n) cs = Some k" by simp
      from Cons.IH [OF this] obtain a b gs where
        t: "take (k - Suc n) cs = a @ Latin (CHR ''}'') # b @ concat gs @ [Latin (CHR ''}'')]"
        and ab: "plain a" "plain b" and gs: "\<forall>g \<in> set gs. brace_group g"
        by auto
      have g: "brace_group (Latin (CHR ''{'') # a @ Latin (CHR ''}'') # b)"
        using ab by (auto simp: brace_group_def)
      have "take (k - n) (c # cs) = [] @ concat ((Latin (CHR ''{'') # a @ Latin (CHR ''}'') # b) # gs) @ [Latin (CHR ''}'')]
          \<and> plain [] \<and> (\<forall>g \<in> set ((Latin (CHR ''{'') # a @ Latin (CHR ''}'') # b) # gs). brace_group g)"
        using tk t opn g gs by (simp add: plain_def)
      with False show ?thesis by metis
    qed
  next
    case other
    show ?thesis
    proof (cases inner)
      case True
      with other Cons.prems have "nested_end True (Suc n) cs = Some k" by simp
      from Cons.IH [OF this] obtain a b gs where
        t: "take (k - Suc n) cs = a @ Latin (CHR ''}'') # b @ concat gs @ [Latin (CHR ''}'')]"
        and ab: "plain a" "plain b" and gs: "\<forall>g \<in> set gs. brace_group g"
        by auto
      have "take (k - n) (c # cs) = (c # a) @ Latin (CHR ''}'') # b @ concat gs @ [Latin (CHR ''}'')]
          \<and> plain (c # a) \<and> plain b \<and> (\<forall>g \<in> set gs. brace_group g)"
        using tk t other ab gs by (simp add: plain_def)
      with True show ?thesis by metis
    next
      case False
      with other Cons.prems have "nested_end False (Suc n) cs = Some k" by simp
      from Cons.IH [OF this] obtain p gs where
        t: "take (k - Suc n) cs = p @ concat gs @ [Latin (CHR ''}'')]"
        and p: "plain p" and gs: "\<forall>g \<in> set gs. brace_group g"
        by auto
      have "take (k - n) (c # cs) = (c # p) @ concat gs @ [Latin (CHR ''}'')]
          \<and> plain (c # p) \<and> (\<forall>g \<in> set gs. brace_group g)"
        using tk t other p gs by (simp add: plain_def)
      with False show ?thesis by metis
    qed
  qed
qed

lemma nested_end_sound:
  assumes "nested_end False 1 cs = Some len"
  shows "nested_pattern (take len (Latin (CHR ''{'') # cs))"
proof -
  have gt: "1 < len" using nested_end_gt [OF assms] by simp
  from nested_end_sound_aux [OF assms] obtain p gs where
    "take (len - 1) cs = p @ concat gs @ [Latin (CHR ''}'')]" "plain p" "\<forall>g \<in> set gs. brace_group g"
    by auto
  moreover have "take len (Latin (CHR ''{'') # cs) = Latin (CHR ''{'') # take (len - 1) cs"
    using gt by (cases len) auto
  ultimately show ?thesis by (auto simp: nested_pattern_def)
qed

text \<open>At most one prefix of a text matches the first pattern, and \<open>nested_end\<close>
  finds it: whatever order the engine tries its alternatives in, this is the
  match it returns.\<close>

lemma nested_end_iff:
  "nested_end False 1 cs = Some len
   \<longleftrightarrow> len \<le> Suc (length cs) \<and> nested_pattern (take len (Latin (CHR ''{'') # cs))"
proof
  assume a: "nested_end False 1 cs = Some len"
  have "nested_pattern (take len (Latin (CHR ''{'') # cs))" by (rule nested_end_sound [OF a])
  moreover have "len \<le> Suc (length cs)"
  proof (rule ccontr)
    assume "\<not> len \<le> Suc (length cs)"
    then have t: "take len (Latin (CHR ''{'') # cs) = Latin (CHR ''{'') # cs" by simp
    from nested_end_complete [OF nested_end_sound [OF a] t, of "[]"] a
    show False using \<open>\<not> len \<le> Suc (length cs)\<close> by simp
  qed
  ultimately show "len \<le> Suc (length cs) \<and> nested_pattern (take len (Latin (CHR ''{'') # cs))" by simp
next
  assume b: "len \<le> Suc (length cs) \<and> nested_pattern (take len (Latin (CHR ''{'') # cs))"
  then have np: "nested_pattern (take len (Latin (CHR ''{'') # cs))" and le: "len \<le> Suc (length cs)"
    by simp_all
  from np have "0 < len" by (cases len) (auto simp: nested_pattern_def)
  then have t: "take len (Latin (CHR ''{'') # cs) = Latin (CHR ''{'') # take (len - 1) cs" by (cases len) auto
  have l: "length (take len (Latin (CHR ''{'') # cs)) = len" using le by simp
  from nested_end_complete [OF np t, of "drop (len - 1) cs"] l
  show "nested_end False 1 cs = Some len" by simp
qed

text \<open>The second pattern ends at the first closing brace after the opening one.\<close>

lemma lazy_end_first_brace:
  "lazy_end n cs =
     (if Latin (CHR ''}'') \<in> set cs
      then Some (n + length (takeWhile (\<lambda>c. c \<noteq> Latin (CHR ''}'')) cs) + 1)
      else None)"
  by (induction cs arbitrary: n) auto

section \<open>The decoder does not depend on its bound\<close>

text \<open>
  Every successful call consumes at least one character, and a call that
  consumes \<open>c\<close> characters succeeds with every bound from \<open>2 * c\<close> on (from
  \<open>2 * c - 1\<close> on for a value). So \<open>loads\<close> gives \<open>None\<close> only for a text that no
  bound decodes.
\<close>

lemma skip_ws_len: "length (skip_ws s) \<le> length s"
  by (simp add: skip_ws_def length_dropWhile_le)

lemma scan_string_len: "scan_string acc s = Some (str, r) \<Longrightarrow> length r < length s"
proof (induction acc s rule: scan_string.induct)
  case (1 acc)
  then show ?case by simp
next
  case (2 acc c)
  then show ?case by (simp split: if_splits)
next
  case (3 acc c e es)
  then show ?case
    by (fastforce split: if_splits option.splits)
qed

lemma literal_len: "literal w v s = Some (x, r) \<Longrightarrow> w \<noteq> [] \<Longrightarrow> length r < length s"
proof -
  assume a: "literal w v s = Some (x, r)" and w: "w \<noteq> []"
  from a have t: "take (length w) s = w" and r: "r = drop (length w) s"
    by (auto simp: literal_def split: if_splits)
  from t have "length (take (length w) s) = length w" by simp
  then have "length w \<le> length s" by simp
  moreover from w have "0 < length w" by simp
  ultimately show ?thesis unfolding r length_drop by arith
qed

lemma scan_int_part_len: "scan_int_part s = Some (ip, r) \<Longrightarrow> length r < length s"
  by (cases s) (auto simp: scan_int_part_def length_dropWhile_le less_Suc_eq_le split: if_splits)

lemma scan_frac_len: "scan_frac s = (fp, r) \<Longrightarrow> length r \<le> length s"
  apply (cases s; simp add: scan_frac_def)
  subgoal for c cs
    by (cases cs) (auto simp: length_dropWhile_le le_SucI split: if_splits)
  done

lemma scan_exp_len: "scan_exp s = (ex, r) \<Longrightarrow> length r \<le> length s"
  apply (cases s; simp add: scan_exp_def)
  subgoal for c cs
    by (cases cs) (auto simp: length_dropWhile_le le_SucI split: if_splits)
  done

lemma scan_number_len: "scan_number s = Some (v, r) \<Longrightarrow> length r < length s"
proof -
  assume a: "scan_number s = Some (v, r)"
  define s1 where "s1 = (if s \<noteq> [] \<and> hd s = Latin (CHR ''-'') then tl s else s)"
  have s1: "length s1 \<le> length s" by (simp add: s1_def)
  from a obtain ip s2 where ip: "scan_int_part s1 = Some (ip, s2)"
    by (auto simp: scan_number_def Let_def s1_def split: option.splits)
  obtain fp s3 where fp: "scan_frac s2 = (fp, s3)" by (cases "scan_frac s2")
  obtain ex s4 where ex: "scan_exp s3 = (ex, s4)" by (cases "scan_exp s3")
  from a ip fp ex have "r = s4"
    by (auto simp: scan_number_def Let_def s1_def split: if_splits)
  with scan_int_part_len [OF ip] scan_frac_len [OF fp] scan_exp_len [OF ex] s1
  show ?thesis by simp
qed

lemma parse_value_scalar:
  "c \<noteq> Latin (CHR ''{'') \<Longrightarrow> c \<noteq> Latin (CHR ''['') \<Longrightarrow> parse_value (Suc k) (c # cs) = parse_value (Suc 0) (c # cs)"
  by simp

lemma parse_value_scalar_len:
  assumes "c \<noteq> Latin (CHR ''{'')" "c \<noteq> Latin (CHR ''['')" "parse_value (Suc 0) (c # cs) = Some (v, r)"
  shows "length r < length (c # cs)"
  using assms
  by (auto split: if_splits option.splits
      dest!: scan_string_len literal_len scan_number_len)

lemma parse_fuel:
  "(\<forall>s v r. parse_value n s = Some (v, r) \<longrightarrow>
      length r < length s
      \<and> (\<forall>m. 2 * (length s - length r) \<le> Suc m \<longrightarrow> parse_value m s = Some (v, r)))
   \<and> (\<forall>acc s v r. parse_elems n acc s = Some (v, r) \<longrightarrow>
      length r < length s
      \<and> (\<forall>m. 2 * (length s - length r) \<le> m \<longrightarrow> parse_elems m acc s = Some (v, r)))
   \<and> (\<forall>d s v r. parse_members n d s = Some (v, r) \<longrightarrow>
      length r < length s
      \<and> (\<forall>m. 2 * (length s - length r) \<le> m \<longrightarrow> parse_members m d s = Some (v, r)))"
proof (induction n)
  case 0
  show ?case by simp
next
  case (Suc n)
  note IH1 = Suc.IH [THEN conjunct1, rule_format]
  note IH2 = Suc.IH [THEN conjunct2, THEN conjunct1, rule_format]
  note IH3 = Suc.IH [THEN conjunct2, THEN conjunct2, rule_format]
  have val: "length r < length s
      \<and> (\<forall>m. 2 * (length s - length r) \<le> Suc m \<longrightarrow> parse_value m s = Some (v, r))"
    if pv: "parse_value (Suc n) s = Some (v, r)" for s v r
  proof -
    from pv obtain c cs where s: "s = c # cs" by (cases s) auto
    consider (obj) "c = Latin (CHR ''{'')" | (arr) "c = Latin (CHR ''['')" | (scalar) "c \<noteq> Latin (CHR ''{'')" "c \<noteq> Latin (CHR ''['')"
      by blast
    then show ?thesis
    proof cases
      case obj
      from pv s obj obtain d ds where sk: "skip_ws cs = d # ds"
        by (cases "skip_ws cs") auto
      have dl: "length (d # ds) \<le> length cs" using skip_ws_len [of cs] sk by simp
      show ?thesis
      proof (cases "d = Latin (CHR ''}'')")
        case True
        with pv s obj sk have vr: "v = JObj []" "r = ds" by auto
        have len: "length r < length s" using dl vr s by simp
        have "parse_value m s = Some (v, r)" if "2 * (length s - length r) \<le> Suc m" for m
        proof -
          from that len obtain m' where "m = Suc m'" by (cases m) auto
          then show ?thesis using s obj sk True vr by simp
        qed
        with len show ?thesis by blast
      next
        case False
        with pv s obj sk have pm: "parse_members n [] (d # ds) = Some (v, r)" by auto
        from IH3 [OF pm] have l3: "length r < length (d # ds)"
          and a3: "\<And>m. 2 * (length (d # ds) - length r) \<le> m \<Longrightarrow> parse_members m [] (d # ds) = Some (v, r)"
          by blast+
        have len: "length r < length s" using l3 dl s by simp
        have "parse_value m s = Some (v, r)" if "2 * (length s - length r) \<le> Suc m" for m
        proof -
          from that len obtain m' where m: "m = Suc m'" by (cases m) auto
          have "2 * (length (d # ds) - length r) \<le> m'" using that m dl s l3 by simp
          from a3 [OF this] show ?thesis using m s obj sk False by simp
        qed
        with len show ?thesis by blast
      qed
    next
      case arr
      from pv s arr obtain d ds where sk: "skip_ws cs = d # ds"
        by (cases "skip_ws cs") auto
      have dl: "length (d # ds) \<le> length cs" using skip_ws_len [of cs] sk by simp
      show ?thesis
      proof (cases "d = Latin (CHR '']'')")
        case True
        with pv s arr sk have vr: "v = JArr []" "r = ds" by auto
        have len: "length r < length s" using dl vr s by simp
        have "parse_value m s = Some (v, r)" if "2 * (length s - length r) \<le> Suc m" for m
        proof -
          from that len obtain m' where "m = Suc m'" by (cases m) auto
          then show ?thesis using s arr sk True vr by simp
        qed
        with len show ?thesis by blast
      next
        case False
        with pv s arr sk have pm: "parse_elems n [] (d # ds) = Some (v, r)" by auto
        from IH2 [OF pm] have l3: "length r < length (d # ds)"
          and a3: "\<And>m. 2 * (length (d # ds) - length r) \<le> m \<Longrightarrow> parse_elems m [] (d # ds) = Some (v, r)"
          by blast+
        have len: "length r < length s" using l3 dl s by simp
        have "parse_value m s = Some (v, r)" if "2 * (length s - length r) \<le> Suc m" for m
        proof -
          from that len obtain m' where m: "m = Suc m'" by (cases m) auto
          have "2 * (length (d # ds) - length r) \<le> m'" using that m dl s l3 by simp
          from a3 [OF this] show ?thesis using m s arr sk False by simp
        qed
        with len show ?thesis by blast
      qed
    next
      case scalar
      from pv s have p0: "parse_value (Suc 0) (c # cs) = Some (v, r)"
        using parse_value_scalar [OF scalar, of n cs] by simp
      have len: "length r < length s"
        using parse_value_scalar_len [OF scalar p0] s by simp
      have "parse_value m s = Some (v, r)" if "2 * (length s - length r) \<le> Suc m" for m
      proof -
        from that len obtain m' where "m = Suc m'" by (cases m) auto
        then show ?thesis using parse_value_scalar [OF scalar, of m' cs] p0 s by simp
      qed
      with len show ?thesis by blast
    qed
  qed
  have elems: "length r < length s
      \<and> (\<forall>m. 2 * (length s - length r) \<le> m \<longrightarrow> parse_elems m acc s = Some (v, r))"
    if pe: "parse_elems (Suc n) acc s = Some (v, r)" for acc s v r
  proof -
    from pe obtain v1 r1 where pv: "parse_value n s = Some (v1, r1)"
      by (auto split: option.splits)
    from pe pv obtain c r2 where sk: "skip_ws r1 = c # r2"
      by (cases "skip_ws r1") auto
    from IH1 [OF pv] have l1: "length r1 < length s"
      and a1: "\<And>m. 2 * (length s - length r1) \<le> Suc m \<Longrightarrow> parse_value m s = Some (v1, r1)"
      by blast+
    have l2: "length r2 < length r1" using skip_ws_len [of r1] sk by simp
    from pe pv sk consider
      (more) "c = Latin (CHR '','')" "parse_elems n (acc @ [v1]) (skip_ws r2) = Some (v, r)"
      | (close) "c \<noteq> Latin (CHR '','')" "c = Latin (CHR '']'')" "v = JArr (acc @ [v1])" "r = r2"
      by (auto split: if_splits)
    then show ?thesis
    proof cases
      case more
      from IH2 [OF more(2)] have l3: "length r < length (skip_ws r2)"
        and a3: "\<And>m. 2 * (length (skip_ws r2) - length r) \<le> m
                  \<Longrightarrow> parse_elems m (acc @ [v1]) (skip_ws r2) = Some (v, r)"
        by blast+
      have l4: "length (skip_ws r2) \<le> length r2" by (rule skip_ws_len)
      have len: "length r < length s" using l1 l2 l3 l4 by simp
      have "parse_elems m acc s = Some (v, r)" if "2 * (length s - length r) \<le> m" for m
      proof -
        from that len obtain m' where m: "m = Suc m'" by (cases m) auto
        have "2 * (length s - length r1) \<le> Suc m'" using that m l1 l2 l3 l4 by simp
        from a1 [OF this] have p1: "parse_value m' s = Some (v1, r1)" .
        have "2 * (length (skip_ws r2) - length r) \<le> m'" using that m l1 l2 l3 l4 by simp
        from a3 [OF this] show ?thesis using m p1 sk more(1) by simp
      qed
      with len show ?thesis by blast
    next
      case close
      have len: "length r < length s" using l1 l2 close by simp
      have "parse_elems m acc s = Some (v, r)" if "2 * (length s - length r) \<le> m" for m
      proof -
        from that len obtain m' where m: "m = Suc m'" by (cases m) auto
        have "2 * (length s - length r1) \<le> Suc m'" using that m l1 l2 close by simp
        from a1 [OF this] show ?thesis using m sk close by simp
      qed
      with len show ?thesis by blast
    qed
  qed
  have members: "length r < length s
      \<and> (\<forall>m. 2 * (length s - length r) \<le> m \<longrightarrow> parse_members m d s = Some (v, r))"
    if pm: "parse_members (Suc n) d s = Some (v, r)" for d s v r
  proof -
    from pm obtain q cs where s: "s = q # cs" by (cases s) auto
    from pm s have q: "q = Latin (CHR 0x22)" by (auto split: if_splits)
    from pm s q obtain k r0 where ss: "scan_string [] cs = Some (k, r0)"
      by (auto split: option.splits)
    from pm s q ss obtain colon r2 where sk0: "skip_ws r0 = colon # r2"
      by (cases "skip_ws r0") auto
    from pm s q ss sk0 have colon: "colon = Latin (CHR '':'')" by (auto split: if_splits)
    from pm s q ss sk0 colon obtain v1 r3 where pv: "parse_value n (skip_ws r2) = Some (v1, r3)"
      by (auto split: option.splits)
    from pm s q ss sk0 colon pv obtain c r4 where sk3: "skip_ws r3 = c # r4"
      by (cases "skip_ws r3") auto
    have l0: "length r0 < length cs" by (rule scan_string_len [OF ss])
    have l2: "length r2 < length r0" using skip_ws_len [of r0] sk0 by simp
    have l2': "length (skip_ws r2) \<le> length r2" by (rule skip_ws_len)
    from IH1 [OF pv] have l3: "length r3 < length (skip_ws r2)"
      and a1: "\<And>m. 2 * (length (skip_ws r2) - length r3) \<le> Suc m
                \<Longrightarrow> parse_value m (skip_ws r2) = Some (v1, r3)"
      by blast+
    have l4: "length r4 < length r3" using skip_ws_len [of r3] sk3 by simp
    from pm s q ss sk0 colon pv sk3 consider
      (more) "c = Latin (CHR '','')" "parse_members n (dict_set k v1 d) (skip_ws r4) = Some (v, r)"
      | (close) "c \<noteq> Latin (CHR '','')" "c = Latin (CHR ''}'')" "v = JObj (dict_set k v1 d)" "r = r4"
      by (auto split: if_splits)
    then show ?thesis
    proof cases
      case more
      from IH3 [OF more(2)] have l5: "length r < length (skip_ws r4)"
        and a3: "\<And>m. 2 * (length (skip_ws r4) - length r) \<le> m
                  \<Longrightarrow> parse_members m (dict_set k v1 d) (skip_ws r4) = Some (v, r)"
        by blast+
      have l6: "length (skip_ws r4) \<le> length r4" by (rule skip_ws_len)
      have len: "length r < length s" using s l0 l2 l2' l3 l4 l5 l6 by simp
      have "parse_members m d s = Some (v, r)" if "2 * (length s - length r) \<le> m" for m
      proof -
        from that len obtain m' where m: "m = Suc m'" by (cases m) auto
        have "2 * (length (skip_ws r2) - length r3) \<le> Suc m'"
          using that m s l0 l2 l2' l3 l4 l5 l6 by simp
        from a1 [OF this] have p1: "parse_value m' (skip_ws r2) = Some (v1, r3)" .
        have "2 * (length (skip_ws r4) - length r) \<le> m'"
          using that m s l0 l2 l2' l3 l4 l5 l6 by simp
        from a3 [OF this] show ?thesis using m s q ss sk0 colon p1 sk3 more(1) by simp
      qed
      with len show ?thesis by blast
    next
      case close
      have len: "length r < length s" using s l0 l2 l2' l3 l4 close by simp
      have "parse_members m d s = Some (v, r)" if "2 * (length s - length r) \<le> m" for m
      proof -
        from that len obtain m' where m: "m = Suc m'" by (cases m) auto
        have "2 * (length (skip_ws r2) - length r3) \<le> Suc m'"
          using that m s l0 l2 l2' l3 l4 close by simp
        from a1 [OF this] show ?thesis using m s q ss sk0 colon sk3 close by simp
      qed
      with len show ?thesis by blast
    qed
  qed
  from val elems members show ?case by blast
qed

text \<open>The bound \<open>loads\<close> passes is enough: a text some bound decodes is decoded by
  \<open>loads\<close>, to the same value.\<close>

lemma loads_enough_fuel:
  assumes "parse_value n (skip_ws s) = Some (v, r)" and "skip_ws r = []"
  shows "loads s = Some v"
proof -
  from parse_fuel [of n] assms(1)
  have "\<forall>m. 2 * (length (skip_ws s) - length r) \<le> Suc m \<longrightarrow> parse_value m (skip_ws s) = Some (v, r)"
    by blast
  moreover have "2 * (length (skip_ws s) - length r) \<le> Suc (2 * length s + 2)"
    using skip_ws_len [of s] by simp
  ultimately have "parse_value (2 * length s + 2) (skip_ws s) = Some (v, r)" by blast
  with assms(2) show ?thesis by (simp add: loads_def)
qed

lemma loads_iff:
  "loads s = Some v \<longleftrightarrow> (\<exists>n r. parse_value n (skip_ws s) = Some (v, r) \<and> skip_ws r = [])"
proof
  assume "loads s = Some v"
  then show "\<exists>n r. parse_value n (skip_ws s) = Some (v, r) \<and> skip_ws r = []"
    unfolding loads_def by (fastforce split: option.splits if_splits simp del: parse_value.simps)
next
  assume "\<exists>n r. parse_value n (skip_ws s) = Some (v, r) \<and> skip_ws r = []"
  then show "loads s = Some v" by (blast intro: loads_enough_fuel)
qed

section \<open>Properties of the Report Assembler's text normalisation\<close>

lemma strip_Nil: "strip [] = []"
  by (simp add: strip_def)

text \<open>
  C10, the claim as stated: the result of \<^verbatim>\<open>safe_text\<close> is a non-empty string for
  every input and every default, and every input other than a null, empty or
  whitespace-only one is mapped to its string form. Neither holds: the default
  is returned as it is, so an empty default comes back for a null input; and
  the test \<^verbatim>\<open>not text\<close> also sends the number 0 to the default, not to \<^verbatim>\<open>"0"\<close>.
\<close>

theorem safe_text_empty_default:
  "safe_text sample_repr JNull [] = []
   \<and> safe_text sample_repr (JInt 0) (lit ''N/A'') = lit ''N/A''
   \<and> py_str sample_repr (JInt 0) = lit ''0''"
  by code_simp

text \<open>
  C10, amended: for every input \<open>x\<close> and every string default \<open>d\<close>, normalising
  the result again changes nothing; a falsy input (null, empty, zero, false) and
  an input whose string form is whitespace-only give the default, every other
  input its string form; and the result is non-empty whenever the default is, as
  with the \<^verbatim>\<open>'N/A'\<close> of every call site.
\<close>

theorem safe_text_idempotent:
  "safe_text repr (JStr (safe_text repr x d)) d = safe_text repr x d
   \<and> (\<not> truthy x \<or> strip (py_str repr x) = [] \<longrightarrow> safe_text repr x d = d)
   \<and> (truthy x \<and> strip (py_str repr x) \<noteq> [] \<longrightarrow> safe_text repr x d = py_str repr x)
   \<and> (d \<noteq> [] \<longrightarrow> safe_text repr x d \<noteq> [])
   \<and> safe_text_na repr x \<noteq> []"
  by (auto simp: safe_text_def safe_text_na_def strip_Nil)

theorem safe_text_idempotent_witness:
  "lit ''N/A'' \<noteq> []
   \<and> safe_text sample_repr (JStr (safe_text sample_repr (JStr (lit ''  '')) (lit ''N/A'')))
         (lit ''N/A'') = lit ''N/A''
   \<and> safe_text sample_repr (JStr (lit ''  '')) (lit ''N/A'') = lit ''N/A''
   \<and> safe_text sample_repr (JStr (lit '' ok '')) (lit ''N/A'') = lit '' ok ''"
proof -
  have blank: "safe_text sample_repr (JStr (lit ''  '')) (lit ''N/A'') = lit ''N/A''"
    by code_simp
  have ok: "safe_text sample_repr (JStr (lit '' ok '')) (lit ''N/A'') = lit '' ok ''"
    by code_simp
  from safe_text_idempotent [of sample_repr "JStr (lit ''  '')" "lit ''N/A''"] blank ok
  show ?thesis by simp
qed

section \<open>Properties of the Web Search Client\<close>

text \<open>
  C5: for every query, when the key is missing (\<^verbatim>\<open>None\<close> or empty), or the
  provider call raises, or parsing its answer raises, \<^verbatim>\<open>search\<close> returns the
  fallback list: exactly one result, whose source is \<^verbatim>\<open>example.com\<close>.
\<close>

theorem search_fallback:
  assumes "api_key = None \<or> api_key = Some []
           \<or> (\<exists>k. api_key = Some k
                 \<and> (prov (search_params query k count) = None
                    \<or> (\<exists>results. prov (search_params query k count) = Some results
                                  \<and> parse_results results = None)))"
  shows "search prov api_key query count = get_fallback_results
         \<and> (\<exists>r. search prov api_key query count = [r]
                 \<and> map_of r (lit ''source'') = Some (JStr (lit ''example.com'')))"
  using assms
  by (auto simp: search_def get_fallback_results_def split: option.splits)

theorem search_fallback_witness:
  "search provider_down None (lit ''solar'') 5 = get_fallback_results
   \<and> search provider_down (Some (lit ''key'')) (lit ''solar'') 5 = get_fallback_results
   \<and> length (search provider_down None (lit ''solar'') 5) = 1"
  using search_fallback [of None provider_down "lit ''solar''" 5]
    search_fallback [of "Some (lit ''key'')" provider_down "lit ''solar''" 5]
  by (auto simp: provider_down_def get_fallback_results_def)

text \<open>
  C8: for every query, count and key (a missing one included), when the provider
  call of \<^verbatim>\<open>search_news\<close> raises, or parsing its answer raises, or the answer
  carries no \<^verbatim>\<open>news_results\<close> (an error payload), the result is the empty list,
  not the one-element fallback of \<^verbatim>\<open>search\<close>.
\<close>

theorem search_news_failure_empty:
  assumes "prov (news_params query api_key count) = None
           \<or> (\<exists>results. prov (news_params query api_key count) = Some results
                 \<and> (parse_news_results results = None
                    \<or> map_of results (lit ''news_results'') = None))"
  shows "search_news prov api_key query count = []
         \<and> search_news prov api_key query count \<noteq> get_fallback_results"
  using assms
  by (auto simp: search_news_def get_fallback_results_def parse_news_results_def
      dict_get_def split: option.splits)

theorem search_news_failure_empty_witness:
  "provider_needs_key (news_params (lit ''solar'') None 5) = None
   \<and> search_news provider_needs_key None (lit ''solar'') 5 = []
   \<and> search_news provider_needs_key None (lit ''solar'') 5 \<noteq> get_fallback_results"
  using search_news_failure_empty [of provider_needs_key "lit ''solar''" None 5]
  by (simp add: provider_needs_key_def news_params_def env_value_def get_fallback_results_def)

section \<open>Properties of the Structured-Report Synthesizer\<close>

lemma py_slice_to_len: "py_slice_to n v = Some v' \<Longrightarrow> \<exists>m. py_len v' = Some m \<and> m \<le> n"
  by (cases v) auto

lemma trend_charts_len: "trend_charts plot topic = Some v \<Longrightarrow> \<exists>cs. v = JArr cs \<and> length cs = 2"
  by (auto simp: trend_charts_def split: Option.bind_splits)

lemma fallback_findings_len: "length (fallback_findings repr topic doc wr) \<le> 4"
  by (auto simp: fallback_findings_def)

lemma fallback_keys:
  "create_fallback_structure repr plot topic doc wr = Some r \<Longrightarrow> map fst r = schema_keys"
  by (auto simp: create_fallback_structure_def schema_keys_def Let_def split: Option.bind_splits)

lemma fallback_bounded:
  assumes "create_fallback_structure repr plot topic doc wr = Some r" "k \<in> set list_keys"
  shows "\<exists>v n. map_of r k = Some v \<and> py_len v = Some n \<and> n \<le> 5"
proof -
  from assms(1) obtain ch where ch: "trend_charts plot topic = Some ch"
    and r: "r = [(lit ''executive_summary'', JStr (fallback_summary topic doc wr)),
           (lit ''key_findings'',
              if fallback_findings repr topic doc wr \<noteq> [] then JArr (fallback_findings repr topic doc wr) else JArr [JStr (lit ''Processing complete'')]),
           (lit ''charts'', ch),
           (lit ''recommendations'',
              JArr [JStr (lit ''Review the provided sources''), JStr (lit ''Consider additional research'')])]"
    by (auto simp: create_fallback_structure_def Let_def split: Option.bind_splits)
  from trend_charts_len[OF ch] obtain cs where cs: "ch = JArr cs" "length cs = 2" by blast
  have "length (fallback_findings repr topic doc wr) \<le> 4" by (rule fallback_findings_len)
  then show ?thesis using assms(2) r cs by (auto simp: list_keys_def)
qed

lemma validate_keys: "validate repr plot topic parsed = Some r \<Longrightarrow> map fst r = schema_keys"
  by (auto simp: validate_def schema_keys_def Let_def split: Option.bind_splits if_splits)

lemma validate_bounded:
  assumes "validate repr plot topic parsed = Some r" "k \<in> set list_keys"
  shows "\<exists>v n. map_of r k = Some v \<and> py_len v = Some n \<and> n \<le> 5"
proof -
  from assms(1) obtain s kf ch rc kf0 ch0 rc0 where
    r: "r = [(lit ''executive_summary'', JStr s), (lit ''key_findings'', kf), (lit ''charts'', ch), (lit ''recommendations'', rc)]"
    and sl: "py_slice_to 5 kf0 = Some kf" "py_slice_to 5 ch0 = Some ch" "py_slice_to 5 rc0 = Some rc"
    by (auto simp: validate_def Let_def split: Option.bind_splits if_splits)
  show ?thesis using assms(2) r py_slice_to_len[OF sl(1)] py_slice_to_len[OF sl(2)] py_slice_to_len[OF sl(3)]
    by (auto simp: list_keys_def)
qed

lemma synth_cases:
  assumes "generate_report_structure repr plot post tok topic doc wr = Some r"
  shows "create_fallback_structure repr plot topic doc wr = Some r \<or> (\<exists>parsed. validate repr plot topic parsed = Some r)"
  using assms
  by (auto simp: generate_report_structure_def model_report_def split: option.splits if_splits http_result.splits Option.bind_splits)

text \<open>
  C2: every report \<^verbatim>\<open>generate_report_structure\<close> returns, from the model's output or
  from the fallback, for every topic, document text and list of web results, has
  under each of \<^verbatim>\<open>key_findings\<close>, \<^verbatim>\<open>charts\<close> and \<^verbatim>\<open>recommendations\<close> a value whose length is
  at most 5.
\<close>

theorem synthesizer_lists_bounded:
  assumes "generate_report_structure repr plot post api_token topic document_text web_results
           = Some r"
    and "k \<in> set list_keys"
  shows "\<exists>v n. map_of r k = Some v \<and> py_len v = Some n \<and> n \<le> 5"
  using synth_cases [OF assms(1)] assms(2)
  by (auto dest: fallback_bounded validate_bounded)

theorem synthesizer_lists_bounded_witness:
  "generate_report_structure sample_repr sample_plot
     (model_answers (lit ''{\"key_findings\": [1, 2, 3, 4, 5, 6, 7], \"charts\": \"abcdefgh\"}''))
     (Some (lit ''token'')) (lit ''AI'') [] None
   = Some [(lit ''executive_summary'', JStr (lit ''Analysis of AI'')),
           (lit ''key_findings'', JArr [JInt 1, JInt 2, JInt 3, JInt 4, JInt 5]),
           (lit ''charts'', JStr (lit ''abcde'')),
           (lit ''recommendations'', JArr [JStr (lit ''See executive summary for recommendations'')])]
   \<and> lit ''charts'' \<in> set list_keys
   \<and> (\<exists>v n. map_of [(lit ''executive_summary'', JStr (lit ''Analysis of AI'')),
           (lit ''key_findings'', JArr [JInt 1, JInt 2, JInt 3, JInt 4, JInt 5]),
           (lit ''charts'', JStr (lit ''abcde'')),
           (lit ''recommendations'', JArr [JStr (lit ''See executive summary for recommendations'')])]
         (lit ''charts'') = Some v \<and> py_len v = Some n \<and> n \<le> 5)"
proof -
  have run: "generate_report_structure sample_repr sample_plot
     (model_answers (lit ''{\"key_findings\": [1, 2, 3, 4, 5, 6, 7], \"charts\": \"abcdefgh\"}''))
     (Some (lit ''token'')) (lit ''AI'') [] None
   = Some [(lit ''executive_summary'', JStr (lit ''Analysis of AI'')),
           (lit ''key_findings'', JArr [JInt 1, JInt 2, JInt 3, JInt 4, JInt 5]),
           (lit ''charts'', JStr (lit ''abcde'')),
           (lit ''recommendations'', JArr [JStr (lit ''See executive summary for recommendations'')])]"
    by code_simp
  have key: "lit ''charts'' \<in> set list_keys" by (simp add: list_keys_def)
  from synthesizer_lists_bounded [OF run key] run key show ?thesis by blast
qed

text \<open>
  C3: for every topic, the fallback called with an empty document text and no
  web results (\<^verbatim>\<open>None\<close> or \<^verbatim>\<open>[]\<close>) returns, unless drawing the two charts raises, a
  report whose \<^verbatim>\<open>key_findings\<close> is the one sentinel \<^verbatim>\<open>"Processing complete"\<close> and whose
  \<^verbatim>\<open>charts\<close> has exactly two elements.
\<close>

theorem fallback_without_inputs:
  assumes "web_results = None \<or> web_results = Some []"
  shows "(create_fallback_structure repr plot topic [] web_results = None
            \<longleftrightarrow> trend_charts plot topic = None)
         \<and> (\<forall>r. create_fallback_structure repr plot topic [] web_results = Some r \<longrightarrow>
                map_of r (lit ''key_findings'') = Some (JArr [JStr (lit ''Processing complete'')])
                \<and> (\<exists>c1 c2. map_of r (lit ''charts'') = Some (JArr [c1, c2])))"
  using assms
  by (auto simp: create_fallback_structure_def fallback_findings_def results_list_def
      trend_charts_def Let_def split: Option.bind_splits)

theorem fallback_without_inputs_witness:
  "create_fallback_structure sample_repr sample_plot (lit ''AI'') [] None
   = Some [(lit ''executive_summary'', JStr (lit ''Analysis of AI'')),
           (lit ''key_findings'', JArr [JStr (lit ''Processing complete'')]),
           (lit ''charts'', JArr [JStr (lit ''data:image/png;base64,iVBORw0KGgo=''),
                              JStr (lit ''data:image/png;base64,iVBORw0KGgo='')]),
           (lit ''recommendations'',
              JArr [JStr (lit ''Review the provided sources''), JStr (lit ''Consider additional research'')])]
   \<and> create_fallback_structure sample_repr sample_plot (lit ''AI'') [] (Some []) \<noteq> None"
proof -
  have run: "create_fallback_structure sample_repr sample_plot (lit ''AI'') [] None
   = Some [(lit ''executive_summary'', JStr (lit ''Analysis of AI'')),
           (lit ''key_findings'', JArr [JStr (lit ''Processing complete'')]),
           (lit ''charts'', JArr [JStr (lit ''data:image/png;base64,iVBORw0KGgo=''),
                              JStr (lit ''data:image/png;base64,iVBORw0KGgo='')]),
           (lit ''recommendations'',
              JArr [JStr (lit ''Review the provided sources''), JStr (lit ''Consider additional research'')])]"
    by code_simp
  have tc: "trend_charts sample_plot (lit ''AI'') \<noteq> None"
    by (simp add: trend_charts_def generate_chart_def sample_plot_def)
  from fallback_without_inputs [of "Some []" sample_repr sample_plot "lit ''AI''"] tc
  have "create_fallback_structure sample_repr sample_plot (lit ''AI'') [] (Some []) \<noteq> None"
    by simp
  with run show ?thesis by simp
qed

lemma synth_keys:
  assumes "generate_report_structure repr plot post tok topic doc wr = Some r"
  shows "map fst r = schema_keys"
  using synth_cases [OF assms] by (auto dest: fallback_keys validate_keys)

lemma schema_no_data_points:
  assumes "map fst r = schema_keys"
  shows "map_of r (lit ''data_points'') = None"
proof -
  have "lit ''data_points'' \<notin> set (map fst r)" by (simp add: assms schema_keys_def)
  then show ?thesis by (simp add: map_of_eq_None_iff)
qed

lemma generate_charts_empty: "generate_charts ok render (JArr []) = Some ([], [])"
  by (simp add: generate_charts_def)

lemma process_document_trace:
  "process_document w file = (doc_text, tr) \<Longrightarrow> Render_Charts d \<notin> set tr"
  by (auto simp: process_document_def split: option.splits if_splits)

lemma run_pipeline_charts:
  assumes "run_pipeline w topic file = (reply, trace)"
  shows "(\<forall>d. Render_Charts d \<in> set trace \<longrightarrow> d = JArr [])
         \<and> (reply_field reply (lit ''success'') = Some (JBool True)
              \<longrightarrow> reply_field reply (lit ''charts_count'') = Some (JInt 0))"
proof -
  obtain doc_text tr1 where pd: "process_document w file = (doc_text, tr1)" by (cases "process_document w file")
  note nt = process_document_trace [OF pd]
  show ?thesis
  proof (cases "generate_report_structure (w_repr w) (w_plot w) (w_post w) (hf_token w)
                topic doc_text (Some (search (serp w) (serpapi_key w) topic 5))")
    case None
    with assms pd nt show ?thesis
      by (auto simp: run_pipeline_def server_error_def reply_field_def)
  next
    case (Some r)
    from schema_no_data_points [OF synth_keys [OF Some]]
    have dp: "dict_get r (lit ''data_points'') (JArr []) = JArr []" by (simp add: dict_get_def)
    from assms pd nt Some dp show ?thesis
      by (auto simp: run_pipeline_def Let_def server_error_def reply_field_def
          generate_charts_empty split: if_splits option.splits)
  qed
qed

text \<open>
  C9: every report \<^verbatim>\<open>generate_report_structure\<close> returns has exactly the four keys
  \<^verbatim>\<open>executive_summary\<close>, \<^verbatim>\<open>key_findings\<close>, \<^verbatim>\<open>charts\<close>, \<^verbatim>\<open>recommendations\<close>, on the model path
  and on the fallback path, so no \<^verbatim>\<open>data_points\<close>; hence whenever the handler calls
  the chart renderer it passes the empty list, and every reply whose
  \<^verbatim>\<open>success\<close> is true has \<^verbatim>\<open>charts_count\<close> 0.
\<close>

theorem no_data_points_no_charts:
  "(generate_report_structure repr plot post api_token topic document_text web_results = Some r
      \<longrightarrow> map fst r = schema_keys \<and> map_of r (lit ''data_points'') = None)
   \<and> (generate_report w req = (reply, trace)
      \<longrightarrow> (\<forall>d. Render_Charts d \<in> set trace \<longrightarrow> d = JArr [])
          \<and> (reply_field reply (lit ''success'') = Some (JBool True)
               \<longrightarrow> reply_field reply (lit ''charts_count'') = Some (JInt 0)))"
proof (intro conjI impI)
  assume a: "generate_report_structure repr plot post api_token topic document_text web_results = Some r"
  show "map fst r = schema_keys" by (rule synth_keys [OF a])
  then show "map_of r (lit ''data_points'') = None" by (rule schema_no_data_points)
next
  assume a: "generate_report w req = (reply, trace)"
  show "\<forall>d. Render_Charts d \<in> set trace \<longrightarrow> d = JArr []"
    using a run_pipeline_charts
    by (fastforce simp: generate_report_def server_error_def split: if_splits option.splits)
next
  assume a: "generate_report w req = (reply, trace)"
    and s: "reply_field reply (lit ''success'') = Some (JBool True)"
  show "reply_field reply (lit ''charts_count'') = Some (JInt 0)"
    using a s run_pipeline_charts
    by (fastforce simp: generate_report_def reply_field_def server_error_def
        split: if_splits option.splits)
qed

theorem no_data_points_no_charts_witness:
  "generate_report sample_world sample_request
     = (Json_Reply 200
          [(lit ''success'', JBool True),
           (lit ''report'',
              JObj [(lit ''executive_summary'', JStr (lit ''Analysis of AI 1 web sources analyzed.'')),
                    (lit ''key_findings'', JArr [JStr (lit ''Reference: Sample Result 1'')]),
                    (lit ''charts'', JArr [JStr (lit ''data:image/png;base64,iVBORw0KGgo=''),
                                       JStr (lit ''data:image/png;base64,iVBORw0KGgo='')]),
                    (lit ''recommendations'',
                       JArr [JStr (lit ''Review the provided sources''),
                             JStr (lit ''Consider additional research'')])]),
           (lit ''charts_count'', JInt 0),
           (lit ''pdf_url'', JStr (lit ''/api/download/tmpk3v9.pdf'')),
           (lit ''search_results_count'', JInt 1)],
        [Search_Web, Synthesize_Report, Render_Charts (JArr []), Assemble_Pdf])
   \<and> (\<exists>r. generate_report_structure sample_repr sample_plot (w_post sample_world) None
               (lit ''AI'') [] (Some get_fallback_results) = Some r
            \<and> map_of r (lit ''data_points'') = None)"
proof -
  let ?reply = "Json_Reply 200
          [(lit ''success'', JBool True),
           (lit ''report'',
              JObj [(lit ''executive_summary'', JStr (lit ''Analysis of AI 1 web sources analyzed.'')),
                    (lit ''key_findings'', JArr [JStr (lit ''Reference: Sample Result 1'')]),
                    (lit ''charts'', JArr [JStr (lit ''data:image/png;base64,iVBORw0KGgo=''),
                                       JStr (lit ''data:image/png;base64,iVBORw0KGgo='')]),
                    (lit ''recommendations'',
                       JArr [JStr (lit ''Review the provided sources''),
                             JStr (lit ''Consider additional research'')])]),
           (lit ''charts_count'', JInt 0),
           (lit ''pdf_url'', JStr (lit ''/api/download/tmpk3v9.pdf'')),
           (lit ''search_results_count'', JInt 1)]"
  let ?trace = "[Search_Web, Synthesize_Report, Render_Charts (JArr []), Assemble_Pdf]"
  let ?report = "[(lit ''executive_summary'', JStr (lit ''Analysis of AI 1 web sources analyzed.'')),
                    (lit ''key_findings'', JArr [JStr (lit ''Reference: Sample Result 1'')]),
                    (lit ''charts'', JArr [JStr (lit ''data:image/png;base64,iVBORw0KGgo=''),
                                       JStr (lit ''data:image/png;base64,iVBORw0KGgo='')]),
                    (lit ''recommendations'',
                       JArr [JStr (lit ''Review the provided sources''),
                             JStr (lit ''Consider additional research'')])]"
  have ev: "generate_report sample_world sample_request = (?reply, ?trace)"
    by code_simp
  have syn: "generate_report_structure sample_repr sample_plot (w_post sample_world) None
               (lit ''AI'') [] (Some get_fallback_results) = Some ?report"
    by code_simp
  from no_data_points_no_charts [of sample_repr sample_plot "w_post sample_world" None "lit ''AI''"
      "[]" "Some get_fallback_results" ?report sample_world sample_request ?reply ?trace] ev syn
  show ?thesis by simp
qed

section \<open>Properties of the Request Orchestrator\<close>

text \<open>
  C7, the claim as stated: every POST request whose form lacks a topic is
  answered with status 400. It is not when reading the form raises: the topic
  test is inside the handler's outer \<^verbatim>\<open>try\<close>, and the reply is that of its
  \<^verbatim>\<open>except Exception\<close>, with status 500.
\<close>

theorem missing_topic_unreadable_form:
  "http_method request_without_topic = lit ''POST''
   \<and> form_topic request_without_topic = None
   \<and> generate_report world_form_unreadable request_without_topic
       = (Json_Reply 500 [(lit ''success'', JBool False), (lit ''error'', JStr [])], [])"
  by code_simp

text \<open>
  C7, amended: for every POST request whose form has no \<^verbatim>\<open>topic\<close> (or an empty
  one), the handler calls no service and replies with a body whose \<^verbatim>\<open>success\<close> is
  false: with status 400 when the form can be read, with status 500 when
  reading it raises.
\<close>

theorem missing_topic_rejected:
  assumes "http_method req = lit ''POST''" and "form_topic req = None \<or> form_topic req = Some []"
  shows "reply_status (fst (generate_report w req)) = (if form_ok w req then 400 else 500)
         \<and> reply_field (fst (generate_report w req)) (lit ''success'') = Some (JBool False)
         \<and> snd (generate_report w req) = []"
  using assms
  by (auto simp: generate_report_def reply_status_def reply_field_def server_error_def)

theorem missing_topic_rejected_witness:
  "http_method request_without_topic = lit ''POST''
   \<and> form_topic request_without_topic = None
   \<and> form_ok sample_world request_without_topic
   \<and> generate_report sample_world request_without_topic
       = (Json_Reply 400
            [(lit ''success'', JBool False), (lit ''error'', JStr (lit ''Topic is required''))],
          [])
   \<and> reply_status (fst (generate_report sample_world request_without_topic)) = 400"
proof -
  have m: "http_method request_without_topic = lit ''POST''"
    by (simp add: request_without_topic_def)
  have t: "form_topic request_without_topic = None \<or> form_topic request_without_topic = Some []"
    by (simp add: request_without_topic_def)
  have f: "form_ok sample_world request_without_topic"
    by (simp add: sample_world_def)
  have ev: "generate_report sample_world request_without_topic
       = (Json_Reply 400
            [(lit ''success'', JBool False), (lit ''error'', JStr (lit ''Topic is required''))],
          [])"
    by code_simp
  from missing_topic_rejected [OF m t, of sample_world] m f ev show ?thesis
    by (simp add: request_without_topic_def)
qed

section \<open>Properties of the Chart Renderer\<close>

text \<open>
  C4, the claim as stated: for every list of two to six data points
  \<^verbatim>\<open>generate_charts\<close> attempts a bar and a pie chart. It does not where
  \<^verbatim>\<open>import plotly.graph_objects\<close> raises: the import is the first statement of the
  \<^verbatim>\<open>try\<close>, its handler logs, and the empty list is returned with no chart function
  called.
\<close>

theorem generate_charts_without_plotly:
  "generate_charts False sample_render
     (JArr [sample_point (lit ''a'') 1, sample_point (lit ''b'') 2]) = Some ([], [])"
  by code_simp

text \<open>
  C4, amended: for every list of data points, \<^verbatim>\<open>generate_charts\<close> returns the empty
  list without calling a chart function when the list is absent or has fewer
  than two elements, and also when the plotting library cannot be imported.
  Where it can, the result for two to six points is what \<^verbatim>\<open>_create_bar_chart\<close> and
  then \<^verbatim>\<open>_create_pie_chart\<close> return on the list (each left out when it is
  \<^verbatim>\<open>None\<close>), and for more than six points what \<^verbatim>\<open>_create_bar_chart\<close> alone returns;
  for points that each have a label and a value and a renderer that succeeds,
  these are the bar chart followed by the pie chart, and the bar chart alone.
\<close>

theorem generate_charts_thresholds:
  "generate_charts ok render JNull = Some ([], [])
   \<and> (length dps < 2 \<longrightarrow> generate_charts ok render (JArr dps) = Some ([], []))
   \<and> (\<not> ok \<longrightarrow> generate_charts ok render (JArr dps) = Some ([], []))
   \<and> (ok \<and> 2 \<le> length dps \<and> length dps \<le> 6 \<longrightarrow>
        generate_charts ok render (JArr dps)
          = Some (appended (create_bar_chart render (JArr dps))
                  @ appended (create_pie_chart render (JArr dps)), [Bar, Pie]))
   \<and> (ok \<and> 6 < length dps \<longrightarrow>
        generate_charts ok render (JArr dps)
          = Some (appended (create_bar_chart render (JArr dps)), [Bar]))
   \<and> (ok \<and> 2 \<le> length dps
        \<and> column (lit ''label'') (JArr dps) = Some labels
        \<and> column (lit ''value'') (JArr dps) = Some values
        \<and> render Bar labels values = Some bar \<and> render Pie labels values = Some pie \<longrightarrow>
        generate_charts ok render (JArr dps)
          = (if length dps \<le> 6
             then Some ([[(lit ''type'', JStr (lit ''bar'')), (lit ''image'', JStr bar),
                          (lit ''title'', JStr (lit ''Data Overview''))],
                         [(lit ''type'', JStr (lit ''pie'')), (lit ''image'', JStr pie),
                          (lit ''title'', JStr (lit ''Distribution Analysis''))]],
                        [Bar, Pie])
             else Some ([[(lit ''type'', JStr (lit ''bar'')), (lit ''image'', JStr bar),
                          (lit ''title'', JStr (lit ''Data Overview''))]],
                        [Bar])))"
  by (auto simp: generate_charts_def create_bar_chart_def create_pie_chart_def appended_def)

theorem generate_charts_thresholds_witness:
  "generate_charts True sample_render (JArr [sample_point (lit ''a'') 1]) = Some ([], [])
   \<and> generate_charts True sample_render
        (JArr [sample_point (lit ''a'') 1, sample_point (lit ''b'') 2])
      = Some ([[(lit ''type'', JStr (lit ''bar'')), (lit ''image'', JStr (lit ''iVBORw0KGgo='')),
                (lit ''title'', JStr (lit ''Data Overview''))],
               [(lit ''type'', JStr (lit ''pie'')), (lit ''image'', JStr (lit ''iVBORw0KGgo='')),
                (lit ''title'', JStr (lit ''Distribution Analysis''))]],
              [Bar, Pie])
   \<and> generate_charts True sample_render (JArr (replicate 7 (sample_point (lit ''a'') 1)))
      = Some ([[(lit ''type'', JStr (lit ''bar'')), (lit ''image'', JStr (lit ''iVBORw0KGgo='')),
                (lit ''title'', JStr (lit ''Data Overview''))]],
              [Bar])"
proof -
  let ?two = "[sample_point (lit ''a'') 1, sample_point (lit ''b'') 2]"
  let ?seven = "replicate 7 (sample_point (lit ''a'') 1)"
  have l2: "column (lit ''label'') (JArr ?two) = Some [JStr (lit ''a''), JStr (lit ''b'')]"
    and v2: "column (lit ''value'') (JArr ?two) = Some [JInt 1, JInt 2]"
    by code_simp+
  have l7: "column (lit ''label'') (JArr ?seven) = Some (replicate 7 (JStr (lit ''a'')))"
    and v7: "column (lit ''value'') (JArr ?seven) = Some (replicate 7 (JInt 1))"
    by code_simp+
  have r: "sample_render k ls vs = Some (lit ''iVBORw0KGgo='')" for k ls vs
    by (simp add: sample_render_def)
  note small = generate_charts_thresholds [of True sample_render "[sample_point (lit ''a'') 1]",
      THEN conjunct2, THEN conjunct1]
  note two = generate_charts_thresholds [of True sample_render ?two
      "[JStr (lit ''a''), JStr (lit ''b'')]" "[JInt 1, JInt 2]"
      "lit ''iVBORw0KGgo=''" "lit ''iVBORw0KGgo=''",
      THEN conjunct2, THEN conjunct2, THEN conjunct2, THEN conjunct2, THEN conjunct2]
  note seven = generate_charts_thresholds [of True sample_render ?seven
      "replicate 7 (JStr (lit ''a''))" "replicate 7 (JInt 1)"
      "lit ''iVBORw0KGgo=''" "lit ''iVBORw0KGgo=''",
      THEN conjunct2, THEN conjunct2, THEN conjunct2, THEN conjunct2, THEN conjunct2]
  have a: "generate_charts True sample_render (JArr [sample_point (lit ''a'') 1]) = Some ([], [])"
    using small by simp
  have b: "generate_charts True sample_render (JArr ?two)
      = Some ([[(lit ''type'', JStr (lit ''bar'')), (lit ''image'', JStr (lit ''iVBORw0KGgo='')),
                (lit ''title'', JStr (lit ''Data Overview''))],
               [(lit ''type'', JStr (lit ''pie'')), (lit ''image'', JStr (lit ''iVBORw0KGgo='')),
                (lit ''title'', JStr (lit ''Distribution Analysis''))]],
              [Bar, Pie])"
    using two l2 v2 r by simp
  have c: "generate_charts True sample_render (JArr ?seven)
      = Some ([[(lit ''type'', JStr (lit ''bar'')), (lit ''image'', JStr (lit ''iVBORw0KGgo='')),
                (lit ''title'', JStr (lit ''Data Overview''))]],
              [Bar])"
    using seven l7 v7 r by simp
  from a b c show ?thesis by simp
qed

section \<open>The terminal failure of the synthesis step\<close>

text \<open>When drawing the placeholder charts raises, the fallback raises with it and
  the handler answers with status 500.\<close>

lemma synthesis_failure_is_terminal:
  "fst (generate_report (sample_world\<lparr>w_plot := plot_broken\<rparr>) sample_request)
   = Json_Reply 500
       [(lit ''success'', JBool False), (lit ''error'', JStr (lit ''Failed to generate report: ''))]"
  by code_simp

section \<open>Properties of the Report Assembler\<close>










section \<open>Properties of the JSON extraction\<close>

text \<open>The example of the specification: a JSON object between prose is recovered.\<close>

lemma extract_json_spec_example:
  "\<exists>d. extract_json (lit ''Sure! {\"executive_summary\":\"X\",\"key_findings\":[\"a\"],\"recommendations\":[\"b\"]} trailing prose'') = Some d
      \<and> map_of d (lit ''executive_summary'') = Some (JStr (lit ''X''))"
proof -
  have "extract_json (lit ''Sure! {\"executive_summary\":\"X\",\"key_findings\":[\"a\"],\"recommendations\":[\"b\"]} trailing prose'')
     = Some [(lit ''executive_summary'', JStr (lit ''X'')),
             (lit ''key_findings'', JArr [JStr (lit ''a'')]),
             (lit ''recommendations'', JArr [JStr (lit ''b'')])]"
    by code_simp
  then show ?thesis by simp
qed

text \<open>A string with an escaped euro sign is decoded to the one code point.\<close>

lemma extract_json_unicode_escape:
  "extract_json (lit ''{\"price\":\"'' @ [Latin (CHR 0x5C)] @ lit ''u20ac\"}'')
   = Some [(lit ''price'', JStr [uchr 8364])]"
  by code_simp

text \<open>
  C1: \<^verbatim>\<open>_extract_json\<close> is to return the first valid JSON object of the text (its
  docstring says so). On the text \<^verbatim>\<open>{"a":"}"}\<close>, which as a whole is a valid JSON
  object, it returns \<^verbatim>\<open>None\<close>: both patterns cut the candidate at the brace inside
  the string.
\<close>

theorem extract_json_brace_in_string:
  "loads (lit ''{\"a\":\"}\"}'') = Some (JObj [(lit ''a'', JStr (lit ''}''))])
   \<and> extract_json (lit ''{\"a\":\"}\"}'') = None"
  by code_simp

text \<open>With three levels of braces the first pattern matches from the second brace
  on, and the object returned is the inner one.\<close>

lemma extract_json_deep_nesting:
  "loads (lit ''{\"a\":{\"b\":{\"c\":1}}}'')
     = Some (JObj [(lit ''a'', JObj [(lit ''b'', JObj [(lit ''c'', JInt 1)])])])
   \<and> extract_json (lit ''{\"a\":{\"b\":{\"c\":1}}}'') = Some [(lit ''b'', JObj [(lit ''c'', JInt 1)])]"
  by code_simp

text \<open>The candidate both patterns find in that text ends inside the string; the
  decoder rejects it whatever bound on the nesting it is given.\<close>

lemma open_string_never_parses: "parse_value n (lit ''\"}'') = None"
  by (cases n) (simp_all add: lit_def)

lemma candidate_never_parses: "parse_value n (lit ''{\"a\":\"}'') = None"
proof (cases n)
  case 0
  then show ?thesis by simp
next
  case (Suc m)
  have tail: "parse_value k [Latin (CHR 0x22), Latin (CHR ''}'')] = None" for k
    using open_string_never_parses [of k] by (simp add: lit_def)
  from Suc show ?thesis
    by (cases m) (simp_all add: lit_def skip_ws_def is_ws_def tail)
qed

end
